theory Spec2Isabelle
  imports Main "HOL-Library.Word"
begin

unbundle bit_operations_syntax

section \<open>The VA context abstraction of gstvaapicontext.c\<close>

text \<open>
  The file manages a hardware session: a VA configuration, a VA context bound to it and to
  a set of surfaces, and the pool of those surfaces. Everything the file calls but does not
  define (libva, GLib, the surface, pool and overlay objects) is a parameter of the model:
  the record \<open>platform\<close> gives the return value of each such call as a function of the
  calls made so far, and every call is appended to a trace of events. A function of the
  source that mutates the session takes the session and the trace, and returns both.
\<close>

subsection \<open>Types and constants\<close>

type_synonym guint = "32 word"
type_synonym VAGenericID = "32 word"
type_synonym VAContextID = VAGenericID
type_synonym VAConfigID = VAGenericID
type_synonym VASurfaceID = VAGenericID
type_synonym VAStatus = int

text \<open>
  \<open>GstVaapiID\<close> holds the VA identifier of an object. The session's own identifier is only
  ever assigned a \<open>VAContextID\<close> or \<open>VA_INVALID_ID\<close>, so it is kept at the width of a
  \<open>VAGenericID\<close>.
\<close>

type_synonym GstVaapiID = VAGenericID

text \<open>Constants of va.h.\<close>

definition VA_INVALID_ID :: VAGenericID where
  "VA_INVALID_ID = 0xffffffff"

definition VA_STATUS_SUCCESS :: VAStatus where
  "VA_STATUS_SUCCESS = 0"

definition VA_RT_FORMAT_YUV420 :: guint where
  "VA_RT_FORMAT_YUV420 = 0x00000001"

definition VA_RC_NONE :: guint where
  "VA_RC_NONE = 0x00000001"

definition VA_PROGRESSIVE :: guint where
  "VA_PROGRESSIVE = 0x1"

definition VAConfigAttribRTFormat :: int where
  "VAConfigAttribRTFormat = 0"

definition VAConfigAttribRateControl :: int where
  "VAConfigAttribRateControl = 5"

text \<open>
  Modelled from the spec: gstvaapiprofile.h is not among the sources. The entry point is
  an enumeration (decode / slice-encode / ...) whose null value is 0; slice-encode is its
  fourth member.
\<close>

definition GST_VAAPI_ENTRYPOINT_SLICE_ENCODE :: guint where
  "GST_VAAPI_ENTRYPOINT_SLICE_ENCODE = 4"

datatype GstVaapiChromaType = GST_VAAPI_CHROMA_TYPE_YUV420

datatype GstVideoFormat = GST_VIDEO_FORMAT_ENCODED

record VAConfigAttrib =
  attrib_type :: int
  attrib_value :: guint

record GstVaapiContextInfo =
  profile :: guint
  entrypoint :: guint
  rc_mode :: guint
  width :: guint
  height :: guint
  ref_frames :: guint

text \<open>
  A surface is an object of gstvaapisurface.c: the model keeps its address and the VA
  identifier that \<open>GST_VAAPI_OBJECT_ID\<close> reads.
\<close>

record GstVaapiSurface =
  surface_ptr :: nat
  surface_id :: VASurfaceID

text \<open>
  Modelled from the spec: the pool of gstvaapivideopool.c is not among the sources. It is
  "a lend/return pool": a capacity and the queue of free objects; its size is the number
  of free objects.
\<close>

record GstVaapiVideoPool =
  capacity :: guint
  free_objects :: "GstVaapiSurface list"

text \<open>
  The session. \<open>surfaces\<close> is the \<open>GPtrArray\<close> (NULL is \<open>None\<close>; a slot may hold a NULL
  pointer), \<open>surfaces_pool\<close> the pool pointer.
\<close>

record GstVaapiContext =
  object_id :: GstVaapiID
  info :: GstVaapiContextInfo
  va_profile :: int
  va_entrypoint :: int
  va_config :: VAConfigID
  surfaces :: "GstVaapiSurface option list option"
  surfaces_pool :: "GstVaapiVideoPool option"

subsection \<open>Events and the platform\<close>

text \<open>
  An event is one call that leaves the file, with its arguments: a call of libva, of GLib,
  of the surface, pool, overlay or object code, a log macro, or the lock of the display.
  A trace lists the events in the order they were made. The flag of
  \<open>Gst_vaapi_surface_set_parent_context\<close> tells whether the parent passed is the session
  or NULL.
\<close>

datatype event =
    G_return_if_fail_warning string
  | GST_DEBUG string guint
  | GST_WARNING string guint
  | GST_ERROR string string
  | GST_VAAPI_DISPLAY_LOCK
  | GST_VAAPI_DISPLAY_UNLOCK
  | VaDestroyContext VAContextID
  | VaDestroyConfig VAConfigID
  | VaGetConfigAttributes int int "int list"
  | VaCreateConfig int int "VAConfigAttrib list"
  | VaCreateContext VAConfigID guint guint guint "VASurfaceID list"
  | Gst_vaapi_context_overlay_init
  | Gst_vaapi_context_overlay_reset
  | Gst_vaapi_context_overlay_finalize
  | Gst_vaapi_object_new
  | G_ptr_array_new_full guint
  | Gst_vaapi_surface_pool_new GstVideoFormat guint guint
  | Gst_vaapi_surface_new GstVaapiChromaType guint guint
  | Gst_vaapi_surface_set_parent_context "GstVaapiSurface option" bool
  | Gst_vaapi_object_unref "GstVaapiSurface option"
  | Gst_vaapi_video_pool_add_object GstVaapiSurface
  | G_array_sized_new nat
  | G_array_free

text \<open>The calls into the hardware (libva).\<close>

fun is_va_call :: "event \<Rightarrow> bool" where
  "is_va_call (VaDestroyContext _) = True"
| "is_va_call (VaDestroyConfig _) = True"
| "is_va_call (VaGetConfigAttributes _ _ _) = True"
| "is_va_call (VaCreateConfig _ _ _) = True"
| "is_va_call (VaCreateContext _ _ _ _ _) = True"
| "is_va_call _ = False"

text \<open>
  What the callees return. Each \<open>_ret\<close> field reads the trace up to and including the
  call it answers, so an answer may depend on the arguments and on everything before.
  \<open>vaGetConfigAttributes_ret\<close> gives the status and the value written to each entry of
  the attribute array; \<open>vaCreateConfig_ret\<close> gives the status and what the callee wrote
  through the \<open>config_id\<close> pointer (\<open>None\<close>: nothing). The last four fields are the pure
  conversion functions of gstvaapiutils.c and gstvaapiprofile.c.
\<close>

record platform =
  gst_vaapi_object_new_ret :: "event list \<Rightarrow> bool"
  gst_vaapi_context_overlay_reset_ret :: "event list \<Rightarrow> bool"
  g_ptr_array_new_full_ret :: "event list \<Rightarrow> bool"
  gst_vaapi_surface_pool_new_ret :: "event list \<Rightarrow> bool"
  gst_vaapi_surface_new_ret :: "event list \<Rightarrow> GstVaapiSurface option"
  gst_vaapi_video_pool_add_object_ret :: "event list \<Rightarrow> bool"
  g_array_sized_new_ret :: "event list \<Rightarrow> bool"
  vaGetConfigAttributes_ret :: "event list \<Rightarrow> VAStatus \<times> (nat \<Rightarrow> guint)"
  vaCreateConfig_ret :: "event list \<Rightarrow> VAStatus \<times> VAConfigID option"
  vaCreateContext_ret :: "event list \<Rightarrow> VAStatus \<times> VAContextID"
  vaDestroyContext_ret :: "event list \<Rightarrow> VAStatus"
  vaDestroyConfig_ret :: "event list \<Rightarrow> VAStatus"
  gst_vaapi_profile_get_va_profile :: "guint \<Rightarrow> int"
  gst_vaapi_entrypoint_get_va_entrypoint :: "guint \<Rightarrow> int"
  from_GstVaapiRateControl :: "guint \<Rightarrow> guint"
  string_of_VARateControl :: "guint \<Rightarrow> string"

text \<open>
  Modelled from the spec: \<open>vaapi_check_status\<close> of gstvaapiutils.c is not among the
  sources; "any native status check failing" is a status other than success.
\<close>

definition vaapi_check_status :: "VAStatus \<Rightarrow> bool" where
  "vaapi_check_status status \<longleftrightarrow> status = VA_STATUS_SUCCESS"

text \<open>
  Modelled from the spec: the pool operations of gstvaapivideopool.c. A new pool is empty;
  registering an object appends it to the free objects; the size is their number; the
  pool lends the first free object and "returns nothing if the pool is exhausted".
\<close>

definition gst_vaapi_video_pool_set_capacity :: "GstVaapiVideoPool \<Rightarrow> guint \<Rightarrow> GstVaapiVideoPool" where
  "gst_vaapi_video_pool_set_capacity pool n = pool\<lparr>capacity := n\<rparr>"

definition gst_vaapi_video_pool_get_size :: "GstVaapiVideoPool option \<Rightarrow> guint" where
  "gst_vaapi_video_pool_get_size pool =
     (case pool of None \<Rightarrow> 0 | Some q \<Rightarrow> of_nat (length (free_objects q)))"

definition gst_vaapi_surface_proxy_new_from_pool ::
  "GstVaapiVideoPool option \<Rightarrow> GstVaapiSurface option \<times> GstVaapiVideoPool option" where
  "gst_vaapi_surface_proxy_new_from_pool pool =
     (case pool of
        None \<Rightarrow> (None, None)
      | Some q \<Rightarrow>
          (case free_objects q of
             [] \<Rightarrow> (None, Some q)
           | s # rest \<Rightarrow> (Some s, Some (q\<lparr>free_objects := rest\<rparr>))))"

subsection \<open>Teardown\<close>

definition unref_surface_cb :: "GstVaapiSurface option \<Rightarrow> event list \<Rightarrow> event list" where
  "unref_surface_cb surface tr =
     tr @ [Gst_vaapi_surface_set_parent_context surface False, Gst_vaapi_object_unref surface]"

text \<open>
  \<open>g_ptr_array_unref\<close> on the only reference: GLib calls the array's element destructor
  (here \<open>unref_surface_cb\<close>) on every slot, in index order.
\<close>

definition g_ptr_array_unref :: "GstVaapiSurface option list \<Rightarrow> event list \<Rightarrow> event list" where
  "g_ptr_array_unref arr tr = fold unref_surface_cb arr tr"

definition gst_vaapi_context_overlay_reset :: "platform \<Rightarrow> event list \<Rightarrow> bool \<times> event list" where
  "gst_vaapi_context_overlay_reset p tr =
     (let tr1 = tr @ [Gst_vaapi_context_overlay_reset]
      in (gst_vaapi_context_overlay_reset_ret p tr1, tr1))"

definition context_destroy_surfaces ::
  "platform \<Rightarrow> GstVaapiContext \<Rightarrow> event list \<Rightarrow> GstVaapiContext \<times> event list" where
  "context_destroy_surfaces p context tr =
     (let tr1 = snd (gst_vaapi_context_overlay_reset p tr);
          (context1, tr2) =
            (case surfaces context of
               Some arr \<Rightarrow> (context\<lparr>surfaces := None\<rparr>, g_ptr_array_unref arr tr1)
             | None \<Rightarrow> (context, tr1))
      in (context1\<lparr>surfaces_pool := None\<rparr>, tr2))"

definition context_destroy ::
  "platform \<Rightarrow> GstVaapiContext \<Rightarrow> event list \<Rightarrow> GstVaapiContext \<times> event list" where
  "context_destroy p context tr =
     (let context_id = object_id context;
          tr1 = tr @ [GST_DEBUG ''context 0x%08x'' context_id];
          (context1, tr2) =
            (if context_id \<noteq> VA_INVALID_ID then
               (let tr_call = tr1 @ [GST_VAAPI_DISPLAY_LOCK, VaDestroyContext context_id];
                    status = vaDestroyContext_ret p tr_call;
                    tr_unlock = tr_call @ [GST_VAAPI_DISPLAY_UNLOCK];
                    tr_warn =
                      (if \<not> vaapi_check_status status
                       then tr_unlock @ [GST_WARNING ''failed to destroy context 0x%08x'' context_id]
                       else tr_unlock)
                in (context\<lparr>object_id := VA_INVALID_ID\<rparr>, tr_warn))
             else (context, tr1))
      in
        if va_config context1 \<noteq> VA_INVALID_ID then
          (let tr_call = tr2 @ [GST_VAAPI_DISPLAY_LOCK, VaDestroyConfig (va_config context1)];
               status = vaDestroyConfig_ret p tr_call;
               tr_unlock = tr_call @ [GST_VAAPI_DISPLAY_UNLOCK];
               tr_warn =
                 (if \<not> vaapi_check_status status
                  then tr_unlock @ [GST_WARNING ''failed to destroy config 0x%08x'' (va_config context1)]
                  else tr_unlock)
           in (context1\<lparr>va_config := VA_INVALID_ID\<rparr>, tr_warn))
        else (context1, tr2))"

subsection \<open>The surface set\<close>

text \<open>
  The loop of \<open>context_create_surfaces\<close> (lines 128 to 137), from index \<open>i\<close>: it returns
  whether every surface was created and registered, with the array, the pool and the
  trace as the loop left them. The index and the bound are the values of the two
  \<open>guint\<close>s (\<open>i\<close> never passes \<open>num_surfaces\<close>, so \<open>i++\<close> does not wrap), and the length of
  the array is the length of the list.
\<close>

function create_surfaces_loop ::
  "platform \<Rightarrow> GstVaapiContextInfo \<Rightarrow> nat \<Rightarrow> nat \<Rightarrow> GstVaapiSurface option list \<Rightarrow>
   GstVaapiVideoPool \<Rightarrow> event list \<Rightarrow>
   bool \<times> GstVaapiSurface option list \<times> GstVaapiVideoPool \<times> event list" where
  "create_surfaces_loop p cip i num_surfaces arr pool tr =
     (if i < num_surfaces then
        (let tr1 = tr @ [Gst_vaapi_surface_new GST_VAAPI_CHROMA_TYPE_YUV420 (width cip) (height cip)]
         in case gst_vaapi_surface_new_ret p tr1 of
              None \<Rightarrow> (False, arr, pool, tr1)
            | Some surface \<Rightarrow>
                (let tr2 = tr1 @ [Gst_vaapi_surface_set_parent_context (Some surface) True];
                     arr1 = arr @ [Some surface];
                     tr3 = tr2 @ [Gst_vaapi_video_pool_add_object surface]
                 in if \<not> gst_vaapi_video_pool_add_object_ret p tr3 then (False, arr1, pool, tr3)
                    else create_surfaces_loop p cip (i + 1) num_surfaces arr1
                           (pool\<lparr>free_objects := free_objects pool @ [surface]\<rparr>) tr3))
      else (True, arr, pool, tr))"
  by pat_completeness auto
termination
  by (relation "measure (\<lambda>(p, cip, i, num_surfaces, arr, pool, tr). num_surfaces - i)") auto

declare create_surfaces_loop.simps [simp del]

definition SCRATCH_SURFACES_COUNT :: guint where
  "SCRATCH_SURFACES_COUNT = 4"

definition context_create_surfaces ::
  "platform \<Rightarrow> GstVaapiContext \<Rightarrow> event list \<Rightarrow> bool \<times> GstVaapiContext \<times> event list" where
  "context_create_surfaces p context tr =
     (let cip = info context;
          (overlay_ok, tr1) = gst_vaapi_context_overlay_reset p tr
      in
        if \<not> overlay_ok then (False, context, tr1)
        else
          (let num_surfaces = ref_frames cip + SCRATCH_SURFACES_COUNT;
               (new_arr, tr2) =
                 (case surfaces context of
                    Some arr \<Rightarrow> (Some arr, tr1)
                  | None \<Rightarrow>
                      (let tr_new = tr1 @ [G_ptr_array_new_full num_surfaces]
                       in (if g_ptr_array_new_full_ret p tr_new then Some [] else None, tr_new)))
           in case new_arr of
                None \<Rightarrow> (False, context\<lparr>surfaces := None\<rparr>, tr2)
              | Some arr \<Rightarrow>
                  (let context1 = context\<lparr>surfaces := Some arr\<rparr>;
                       (new_pool, tr3) =
                         (case surfaces_pool context1 of
                            Some pool \<Rightarrow> (Some pool, tr2)
                          | None \<Rightarrow>
                              (let tr_new = tr2 @ [Gst_vaapi_surface_pool_new GST_VIDEO_FORMAT_ENCODED
                                                     (width cip) (height cip)]
                               in (if gst_vaapi_surface_pool_new_ret p tr_new
                                   then Some \<lparr>capacity = 0, free_objects = []\<rparr> else None, tr_new)))
                   in case new_pool of
                        None \<Rightarrow> (False, context1\<lparr>surfaces_pool := None\<rparr>, tr3)
                      | Some pool \<Rightarrow>
                          (let pool1 = gst_vaapi_video_pool_set_capacity pool num_surfaces;
                               (ok, arr2, pool2, tr4) =
                                 create_surfaces_loop p cip (length arr) (unat num_surfaces) arr pool1 tr3
                           in (ok, context1\<lparr>surfaces := Some arr2, surfaces_pool := Some pool2\<rparr>, tr4)))))"

subsection \<open>Configuration and context\<close>

text \<open>The loop of \<open>context_create\<close> over the surface array (lines 164 to 170).\<close>

fun snapshot_surface_ids :: "GstVaapiSurface option list \<Rightarrow> VASurfaceID list option" where
  "snapshot_surface_ids [] = Some []"
| "snapshot_surface_ids (None # rest) = None"
| "snapshot_surface_ids (Some surface # rest) =
     map_option ((#) (surface_id surface)) (snapshot_surface_ids rest)"

text \<open>
  \<open>context_create\<close> is one function in the source; the model cuts it at two points so
  that each part can be named. \<open>context_create_context\<close> is lines 213 to 223 (the call of
  \<open>vaCreateContext\<close> and the assignment of the identifier), \<open>context_create_va_config\<close>
  lines 205 to 211 followed by it, \<open>context_create_attribs\<close> lines 179 to 203 followed
  by both, and \<open>context_create\<close> the whole function with its \<open>cleanup\<close> label.
\<close>

definition context_create_context ::
  "platform \<Rightarrow> GstVaapiContext \<Rightarrow> VASurfaceID list \<Rightarrow> event list \<Rightarrow>
   bool \<times> GstVaapiContext \<times> event list" where
  "context_create_context p context ids tr =
     (let cip = info context;
          tr_call = tr @ [GST_VAAPI_DISPLAY_LOCK,
                          VaCreateContext (va_config context) (width cip) (height cip) VA_PROGRESSIVE ids];
          (status, context_id) = vaCreateContext_ret p tr_call;
          tr_unlock = tr_call @ [GST_VAAPI_DISPLAY_UNLOCK]
      in
        if \<not> vaapi_check_status status then (False, context, tr_unlock)
        else (True, context\<lparr>object_id := context_id\<rparr>,
              tr_unlock @ [GST_DEBUG ''context 0x%08x'' context_id]))"

definition context_create_va_config ::
  "platform \<Rightarrow> GstVaapiContext \<Rightarrow> VAConfigAttrib list \<Rightarrow> VASurfaceID list \<Rightarrow> event list \<Rightarrow>
   bool \<times> GstVaapiContext \<times> event list" where
  "context_create_va_config p context attribs ids tr =
     (let tr_call = tr @ [GST_VAAPI_DISPLAY_LOCK,
                          VaCreateConfig (va_profile context) (va_entrypoint context) attribs];
          (status, written) = vaCreateConfig_ret p tr_call;
          context1 = (case written of Some config \<Rightarrow> context\<lparr>va_config := config\<rparr> | None \<Rightarrow> context);
          tr_unlock = tr_call @ [GST_VAAPI_DISPLAY_UNLOCK]
      in
        if \<not> vaapi_check_status status then (False, context1, tr_unlock)
        else context_create_context p context1 ids tr_unlock)"

definition context_create_attribs ::
  "platform \<Rightarrow> GstVaapiContext \<Rightarrow> VASurfaceID list \<Rightarrow> event list \<Rightarrow>
   bool \<times> GstVaapiContext \<times> event list" where
  "context_create_attribs p context ids tr =
     (let cip = info context;
          attrib_types =
            VAConfigAttribRTFormat #
              (if entrypoint cip = GST_VAAPI_ENTRYPOINT_SLICE_ENCODE then [VAConfigAttribRateControl] else []);
          tr_call = tr @ [GST_VAAPI_DISPLAY_LOCK,
                          VaGetConfigAttributes (va_profile context) (va_entrypoint context) attrib_types];
          (status, attrib_values) = vaGetConfigAttributes_ret p tr_call;
          tr_unlock = tr_call @ [GST_VAAPI_DISPLAY_UNLOCK]
      in
        if \<not> vaapi_check_status status then (False, context, tr_unlock)
        else if attrib_values 0 AND VA_RT_FORMAT_YUV420 = 0 then (False, context, tr_unlock)
        else if entrypoint cip = GST_VAAPI_ENTRYPOINT_SLICE_ENCODE then
          (let va_rate_control = from_GstVaapiRateControl p (rc_mode cip);
               attribs1_value = (if va_rate_control = VA_RC_NONE then VA_RC_NONE else attrib_values 1)
           in
             if attribs1_value AND va_rate_control \<noteq> va_rate_control then
               (False, context,
                tr_unlock @ [GST_ERROR ''unsupported %s rate control''
                               (string_of_VARateControl p va_rate_control)])
             else
               context_create_va_config p context
                 [\<lparr>attrib_type = VAConfigAttribRTFormat, attrib_value = attrib_values 0\<rparr>,
                  \<lparr>attrib_type = VAConfigAttribRateControl, attrib_value = va_rate_control\<rparr>]
                 ids tr_unlock)
        else
          context_create_va_config p context
            [\<lparr>attrib_type = VAConfigAttribRTFormat, attrib_value = attrib_values 0\<rparr>]
            ids tr_unlock)"

text \<open>
  After a successful \<open>context_create_surfaces\<close> the source reads
  \<open>context->surfaces->len\<close> (line 160). The model has a branch for a NULL array there,
  which returns failure; lemma \<open>context_create_surfaces_allocates\<close> below shows that it
  is never taken.
\<close>

definition context_create ::
  "platform \<Rightarrow> GstVaapiContext \<Rightarrow> event list \<Rightarrow> bool \<times> GstVaapiContext \<times> event list" where
  "context_create p context tr =
     (let (surfaces_ok, context1, tr1) =
            (if surfaces context = None then context_create_surfaces p context tr
             else (True, context, tr))
      in
        if \<not> surfaces_ok then (False, context1, tr1)
        else
          case surfaces context1 of
            None \<Rightarrow> (False, context1, tr1)
          | Some arr \<Rightarrow>
              (let tr2 = tr1 @ [G_array_sized_new (length arr)]
               in
                 if \<not> g_array_sized_new_ret p tr2 then (False, context1, tr2)
                 else
                   (let cip = info context1;
                        (success, context2, tr3) =
                          (case snapshot_surface_ids arr of
                             None \<Rightarrow> (False, context1, tr2)
                           | Some ids \<Rightarrow>
                               if profile cip = 0 \<or> entrypoint cip = 0 then (False, context1, tr2)
                               else
                                 context_create_attribs p
                                   (context1\<lparr>va_profile := gst_vaapi_profile_get_va_profile p (profile cip),
                                             va_entrypoint :=
                                               gst_vaapi_entrypoint_get_va_entrypoint p (entrypoint cip)\<rparr>)
                                   ids tr2)
                    in (success, context2, tr3 @ [G_array_free]))))"

subsection \<open>The object's life cycle\<close>

definition gst_vaapi_context_init ::
  "GstVaapiContext \<Rightarrow> GstVaapiContextInfo \<Rightarrow> event list \<Rightarrow> GstVaapiContext \<times> event list" where
  "gst_vaapi_context_init context cip tr =
     (context\<lparr>info := cip, va_config := VA_INVALID_ID\<rparr>, tr @ [Gst_vaapi_context_overlay_init])"

definition gst_vaapi_context_finalize ::
  "platform \<Rightarrow> GstVaapiContext \<Rightarrow> event list \<Rightarrow> GstVaapiContext \<times> event list" where
  "gst_vaapi_context_finalize p context tr =
     (let (context1, tr1) = context_destroy p context tr;
          (context2, tr2) = context_destroy_surfaces p context1 tr1
      in (context2, tr2 @ [Gst_vaapi_context_overlay_finalize]))"

text \<open>
  Modelled from the spec: the object base class of gstvaapiobject.c is not among the
  sources. A new object has every handle "not created": its identifier is the sentinel
  and the fields of the subclass are zero. Dropping the only reference of a session
  finalizes it and "the whole object is discarded".
\<close>

definition gst_vaapi_object_new :: "platform \<Rightarrow> event list \<Rightarrow> GstVaapiContext option \<times> event list" where
  "gst_vaapi_object_new p tr =
     (let tr1 = tr @ [Gst_vaapi_object_new]
      in (if gst_vaapi_object_new_ret p tr1
          then Some \<lparr>object_id = VA_INVALID_ID,
                     info = \<lparr>profile = 0, entrypoint = 0, rc_mode = 0, width = 0, height = 0, ref_frames = 0\<rparr>,
                     va_profile = 0, va_entrypoint = 0, va_config = 0,
                     surfaces = None, surfaces_pool = None\<rparr>
          else None, tr1))"

definition gst_vaapi_object_unref_context :: "platform \<Rightarrow> GstVaapiContext \<Rightarrow> event list \<Rightarrow> event list" where
  "gst_vaapi_object_unref_context p context tr = snd (gst_vaapi_context_finalize p context tr)"

definition gst_vaapi_context_new ::
  "platform \<Rightarrow> GstVaapiContextInfo \<Rightarrow> event list \<Rightarrow> GstVaapiContext option \<times> event list" where
  "gst_vaapi_context_new p cip tr =
     (if profile cip = 0 then (None, tr @ [G_return_if_fail_warning ''cip->profile''])
      else if entrypoint cip = 0 then (None, tr @ [G_return_if_fail_warning ''cip->entrypoint''])
      else if \<not> 0 < width cip then (None, tr @ [G_return_if_fail_warning ''cip->width > 0''])
      else if \<not> 0 < height cip then (None, tr @ [G_return_if_fail_warning ''cip->height > 0''])
      else
        case gst_vaapi_object_new p tr of
          (None, tr1) \<Rightarrow> (None, tr1)
        | (Some object, tr1) \<Rightarrow>
            (let (context, tr2) = gst_vaapi_context_init object cip tr1;
                 (ok, context1, tr3) = context_create p context tr2
             in
               if \<not> ok then (None, gst_vaapi_object_unref_context p context1 tr3)
               else (Some context1, tr3)))"

text \<open>
  \<open>gst_vaapi_context_reset\<close> is one function in the source; the model names its two
  halves. \<open>gst_vaapi_context_reset_info\<close> is lines 301 to 326: it compares the stored
  descriptor with the new one, updates the stored one in place and returns it with the
  flags \<open>size_changed\<close> and \<open>config_changed\<close>. \<open>gst_vaapi_context_reset_rebuild\<close> is
  lines 328 to 337: the teardown and the rebuild that the flags ask for.
\<close>

definition gst_vaapi_context_reset_info ::
  "GstVaapiContextInfo \<Rightarrow> GstVaapiContextInfo \<Rightarrow> GstVaapiContextInfo \<times> bool \<times> bool" where
  "gst_vaapi_context_reset_info cip new_cip =
     (let size_changed = (width cip \<noteq> width new_cip \<or> height cip \<noteq> height new_cip);
          cip1 = (if size_changed then cip\<lparr>width := width new_cip, height := height new_cip\<rparr> else cip);
          config_changed = (profile cip1 \<noteq> profile new_cip \<or> entrypoint cip1 \<noteq> entrypoint new_cip);
          cip2 = (if config_changed
                  then cip1\<lparr>profile := profile new_cip, entrypoint := entrypoint new_cip\<rparr> else cip1)
      in
        if entrypoint new_cip = GST_VAAPI_ENTRYPOINT_SLICE_ENCODE then
          (if rc_mode cip2 \<noteq> rc_mode new_cip then (cip2\<lparr>rc_mode := rc_mode new_cip\<rparr>, size_changed, True)
           else (cip2, size_changed, config_changed))
        else (cip2, size_changed, config_changed))"

definition gst_vaapi_context_reset_rebuild ::
  "platform \<Rightarrow> GstVaapiContext \<Rightarrow> bool \<Rightarrow> bool \<Rightarrow> event list \<Rightarrow>
   bool \<times> GstVaapiContext \<times> event list" where
  "gst_vaapi_context_reset_rebuild p context size_changed config_changed tr =
     (let (context1, tr1) =
            (if size_changed then context_destroy_surfaces p context tr else (context, tr));
          (context2, tr2) =
            (if config_changed then context_destroy p context1 tr1 else (context1, tr1));
          (surfaces_ok, context3, tr3) =
            (if size_changed then context_create_surfaces p context2 tr2 else (True, context2, tr2))
      in
        if \<not> surfaces_ok then (False, context3, tr3)
        else if config_changed then context_create p context3 tr3
        else (True, context3, tr3))"

definition gst_vaapi_context_reset ::
  "platform \<Rightarrow> GstVaapiContext \<Rightarrow> GstVaapiContextInfo \<Rightarrow> event list \<Rightarrow>
   bool \<times> GstVaapiContext \<times> event list" where
  "gst_vaapi_context_reset p context new_cip tr =
     (let (cip, size_changed, config_changed) = gst_vaapi_context_reset_info (info context) new_cip
      in gst_vaapi_context_reset_rebuild p (context\<lparr>info := cip\<rparr>) size_changed config_changed tr)"

subsection \<open>Accessors\<close>

text \<open>A session pointer is \<open>None\<close> when it is NULL.\<close>

definition gst_vaapi_context_get_id :: "GstVaapiContext option \<Rightarrow> event list \<Rightarrow> GstVaapiID \<times> event list" where
  "gst_vaapi_context_get_id context tr =
     (case context of
        None \<Rightarrow> (VA_INVALID_ID, tr @ [G_return_if_fail_warning ''context != NULL''])
      | Some c \<Rightarrow> (object_id c, tr))"

definition gst_vaapi_context_get_surface_proxy ::
  "GstVaapiContext option \<Rightarrow> event list \<Rightarrow>
   GstVaapiSurface option \<times> GstVaapiContext option \<times> event list" where
  "gst_vaapi_context_get_surface_proxy context tr =
     (case context of
        None \<Rightarrow> (None, None, tr @ [G_return_if_fail_warning ''context != NULL''])
      | Some c \<Rightarrow>
          (let (proxy, pool) = gst_vaapi_surface_proxy_new_from_pool (surfaces_pool c)
           in (proxy, Some (c\<lparr>surfaces_pool := pool\<rparr>), tr)))"

definition gst_vaapi_context_get_surface_count ::
  "GstVaapiContext option \<Rightarrow> event list \<Rightarrow> guint \<times> event list" where
  "gst_vaapi_context_get_surface_count context tr =
     (case context of
        None \<Rightarrow> (0, tr @ [G_return_if_fail_warning ''context != NULL''])
      | Some c \<Rightarrow> (gst_vaapi_video_pool_get_size (surfaces_pool c), tr))"

text \<open>
  \<open>out_value_ptr\<close> is \<open>None\<close> when the pointer is NULL, else the value it points to; the
  function returns what it points to afterwards.
\<close>

definition gst_vaapi_context_get_attribute ::
  "platform \<Rightarrow> GstVaapiContext option \<Rightarrow> int \<Rightarrow> guint option \<Rightarrow> event list \<Rightarrow>
   bool \<times> guint option \<times> event list" where
  "gst_vaapi_context_get_attribute p context type out_value_ptr tr =
     (case context of
        None \<Rightarrow> (False, out_value_ptr, tr @ [G_return_if_fail_warning ''context != NULL''])
      | Some c \<Rightarrow>
          (let tr_call = tr @ [GST_VAAPI_DISPLAY_LOCK,
                               VaGetConfigAttributes (va_profile c) (va_entrypoint c) [type]];
               (status, attrib_values) = vaGetConfigAttributes_ret p tr_call;
               tr_unlock = tr_call @ [GST_VAAPI_DISPLAY_UNLOCK]
           in
             if \<not> vaapi_check_status status then (False, out_value_ptr, tr_unlock)
             else (True, map_option (\<lambda>_. attrib_values 0) out_value_ptr, tr_unlock)))"

section \<open>Vocabulary of the properties\<close>

text \<open>The events that take a part of the session down.\<close>

fun is_teardown_step :: "event \<Rightarrow> bool" where
  "is_teardown_step (VaDestroyContext _) = True"
| "is_teardown_step (VaDestroyConfig _) = True"
| "is_teardown_step Gst_vaapi_context_overlay_reset = True"
| "is_teardown_step (Gst_vaapi_object_unref _) = True"
| "is_teardown_step Gst_vaapi_context_overlay_finalize = True"
| "is_teardown_step _ = False"

fun is_GST_ERROR :: "event \<Rightarrow> bool" where
  "is_GST_ERROR (GST_ERROR _ _) = True"
| "is_GST_ERROR _ = False"

text \<open>
  The trace up to and including the call of \<open>vaGetConfigAttributes\<close> at line 185, when
  \<open>context_create\<close> reaches line 179 with the trace \<open>tr\<close>.
\<close>

definition attribs_query :: "GstVaapiContext \<Rightarrow> event list \<Rightarrow> event list" where
  "attribs_query context tr =
     tr @ [GST_VAAPI_DISPLAY_LOCK,
           VaGetConfigAttributes (va_profile context) (va_entrypoint context)
             (VAConfigAttribRTFormat #
                (if entrypoint (info context) = GST_VAAPI_ENTRYPOINT_SLICE_ENCODE
                 then [VAConfigAttribRateControl] else []))]"

section \<open>Example platforms and sessions\<close>

text \<open>
  A platform on which every call succeeds. The hardware supports 4:2:0 and the rate
  controls CBR and VBR (bits 2 and 4); a surface is named after the length of the trace
  at its creation.
\<close>

definition example_platform :: platform where
  "example_platform =
     \<lparr>gst_vaapi_object_new_ret = (\<lambda>tr. True),
      gst_vaapi_context_overlay_reset_ret = (\<lambda>tr. True),
      g_ptr_array_new_full_ret = (\<lambda>tr. True),
      gst_vaapi_surface_pool_new_ret = (\<lambda>tr. True),
      gst_vaapi_surface_new_ret =
        (\<lambda>tr. Some \<lparr>surface_ptr = length tr, surface_id = of_nat (length tr)\<rparr>),
      gst_vaapi_video_pool_add_object_ret = (\<lambda>tr. True),
      g_array_sized_new_ret = (\<lambda>tr. True),
      vaGetConfigAttributes_ret = (\<lambda>tr. (0, \<lambda>i. if i = 0 then 1 else 6)),
      vaCreateConfig_ret = (\<lambda>tr. (0, Some (if even (length tr) then 0x1000000 else 0x1000001))),
      vaCreateContext_ret = (\<lambda>tr. (0, if even (length tr) then 0x2000000 else 0x2000001)),
      vaDestroyContext_ret = (\<lambda>tr. 0),
      vaDestroyConfig_ret = (\<lambda>tr. 0),
      gst_vaapi_profile_get_va_profile = (\<lambda>v. 6),
      gst_vaapi_entrypoint_get_va_entrypoint = (\<lambda>v. 6),
      from_GstVaapiRateControl =
        (\<lambda>v. if v = 2 then 2 else if v = 4 then 4 else if v = 3 then 8 else 1),
      string_of_VARateControl =
        (\<lambda>v. if v = 2 then ''CBR'' else if v = 4 then ''VBR'' else if v = 8 then ''VCM'' else ''NONE'')\<rparr>"

text \<open>The same hardware, except that both destroy calls report an error.\<close>

definition failing_destroy_platform :: platform where
  "failing_destroy_platform =
     example_platform\<lparr>vaDestroyContext_ret := (\<lambda>tr. 1), vaDestroyConfig_ret := (\<lambda>tr. 1)\<rparr>"

text \<open>Hardware that supports 4:2:2 only.\<close>

definition no_yuv420_platform :: platform where
  "no_yuv420_platform = example_platform\<lparr>vaGetConfigAttributes_ret := (\<lambda>tr. (0, \<lambda>i. 2))\<rparr>"

text \<open>A slice-encode descriptor with CBR rate control (mode 2), and the session built for it.\<close>

definition example_info :: GstVaapiContextInfo where
  "example_info =
     \<lparr>profile = 1, entrypoint = 4, rc_mode = 2, width = 16, height = 16, ref_frames = 0\<rparr>"

definition example_surface :: "nat \<Rightarrow> GstVaapiSurface" where
  "example_surface k = \<lparr>surface_ptr = k, surface_id = of_nat k\<rparr>"

definition example_session :: GstVaapiContext where
  "example_session =
     \<lparr>object_id = 0x2000000, info = example_info, va_profile = 6, va_entrypoint = 6,
      va_config = 0x1000001,
      surfaces = Some [Some (example_surface 6), Some (example_surface 9),
                       Some (example_surface 12), Some (example_surface 15)],
      surfaces_pool = Some \<lparr>capacity = 4,
                             free_objects = [example_surface 6, example_surface 9,
                                             example_surface 12, example_surface 15]\<rparr>\<rparr>"

text \<open>Hardware whose only rate control is CBR (bit 2).\<close>

definition cbr_only_platform :: platform where
  "cbr_only_platform =
     example_platform\<lparr>vaGetConfigAttributes_ret := (\<lambda>tr. (0, \<lambda>i. if i = 0 then 1 else 2))\<rparr>"

text \<open>A decode descriptor (entry point 1), for which the rate control means nothing.\<close>

definition decode_info :: GstVaapiContextInfo where
  "decode_info =
     \<lparr>profile = 1, entrypoint = 1, rc_mode = 0, width = 16, height = 16, ref_frames = 0\<rparr>"

text \<open>A platform on which the overlay cannot be reset, so that no surface set can be built.\<close>

definition failing_overlay_platform :: platform where
  "failing_overlay_platform =
     example_platform\<lparr>gst_vaapi_context_overlay_reset_ret := (\<lambda>tr. False)\<rparr>"

text \<open>
  The session that a failed change of size leaves behind: the new size is stored, the
  surface set and the pool are gone, both handles are still valid.
\<close>

definition torn_session :: GstVaapiContext where
  "torn_session =
     example_session\<lparr>info := example_info\<lparr>width := 32\<rparr>, surfaces := None, surfaces_pool := None\<rparr>"

text \<open>
  A driver whose \<open>vaCreateContext\<close> reports success and writes \<open>VA_INVALID_ID\<close> as the
  identifier of the new context.
\<close>

definition invalid_id_platform :: platform where
  "invalid_id_platform = example_platform\<lparr>vaCreateContext_ret := (\<lambda>tr. (0, 0xffffffff))\<rparr>"

text \<open>A descriptor whose count of reference frames is three below the largest \<open>guint\<close>.\<close>

definition wrapping_info :: GstVaapiContextInfo where
  "wrapping_info = example_info\<lparr>ref_frames := 0xfffffffd\<rparr>"

section \<open>Evaluation of the examples\<close>

text \<open>The equations that compute the model on a concrete platform and session.\<close>

lemmas model_defs =
  gst_vaapi_context_new_def gst_vaapi_object_new_def gst_vaapi_context_init_def
  gst_vaapi_object_unref_context_def gst_vaapi_context_finalize_def
  gst_vaapi_context_reset_def gst_vaapi_context_reset_info_def gst_vaapi_context_reset_rebuild_def
  context_create_def context_create_attribs_def context_create_va_config_def context_create_context_def
  context_create_surfaces_def create_surfaces_loop.simps gst_vaapi_context_overlay_reset_def
  context_destroy_def context_destroy_surfaces_def g_ptr_array_unref_def unref_surface_cb_def
  gst_vaapi_video_pool_set_capacity_def gst_vaapi_video_pool_get_size_def
  gst_vaapi_context_get_surface_count_def gst_vaapi_context_get_id_def
  vaapi_check_status_def VA_STATUS_SUCCESS_def VA_RT_FORMAT_YUV420_def VA_RC_NONE_def
  VA_PROGRESSIVE_def VA_INVALID_ID_def GST_VAAPI_ENTRYPOINT_SLICE_ENCODE_def
  VAConfigAttribRTFormat_def VAConfigAttribRateControl_def SCRATCH_SURFACES_COUNT_def
  Let_def

lemmas example_defs =
  example_platform_def failing_destroy_platform_def failing_overlay_platform_def
  no_yuv420_platform_def cbr_only_platform_def invalid_id_platform_def
  example_info_def decode_info_def example_surface_def example_session_def torn_session_def
  wrapping_info_def

text \<open>
  The example session is the one \<open>gst_vaapi_context_new\<close> builds on the example
  platform, and a change of size on a platform whose overlay reset fails leaves the torn
  session.
\<close>

lemma example_session_created:
  "fst (gst_vaapi_context_new example_platform example_info []) = Some example_session"
  by (simp add: model_defs example_defs)

lemma torn_session_reachable:
  "\<not> fst (gst_vaapi_context_reset failing_overlay_platform example_session (example_info\<lparr>width := 32\<rparr>) []) \<and>
   fst (snd (gst_vaapi_context_reset failing_overlay_platform example_session
               (example_info\<lparr>width := 32\<rparr>) [])) = torn_session"
  by (simp add: model_defs example_defs)

section \<open>Properties of the teardown\<close>

lemma g_ptr_array_unref_trace:
  "g_ptr_array_unref arr tr =
     tr @ concat (map (\<lambda>s. [Gst_vaapi_surface_set_parent_context s False, Gst_vaapi_object_unref s]) arr)"
  unfolding g_ptr_array_unref_def
  by (induction arr arbitrary: tr) (simp_all add: unref_surface_cb_def)

lemma filter_unref_teardown:
  "filter is_teardown_step
     (concat (map (\<lambda>s. [Gst_vaapi_surface_set_parent_context s False, Gst_vaapi_object_unref s]) arr)) =
   map Gst_vaapi_object_unref arr"
  by (induction arr) simp_all

lemma filter_unref_va_call:
  "filter is_va_call
     (concat (map (\<lambda>s. [Gst_vaapi_surface_set_parent_context s False, Gst_vaapi_object_unref s]) arr)) = []"
  by (induction arr) simp_all

lemma context_destroy_fields:
  "object_id (fst (context_destroy p c tr)) = VA_INVALID_ID"
  "va_config (fst (context_destroy p c tr)) = VA_INVALID_ID"
  "surfaces (fst (context_destroy p c tr)) = surfaces c"
  "surfaces_pool (fst (context_destroy p c tr)) = surfaces_pool c"
  "info (fst (context_destroy p c tr)) = info c"
  by (simp_all add: context_destroy_def Let_def case_prod_beta)

lemma context_destroy_teardown_steps:
  "filter is_teardown_step (snd (context_destroy p c tr)) =
     filter is_teardown_step tr
     @ (if object_id c \<noteq> VA_INVALID_ID then [VaDestroyContext (object_id c)] else [])
     @ (if va_config c \<noteq> VA_INVALID_ID then [VaDestroyConfig (va_config c)] else [])"
  by (simp add: context_destroy_def Let_def case_prod_beta)

lemma context_destroy_va_calls:
  "filter is_va_call (snd (context_destroy p c tr)) =
     filter is_va_call tr
     @ (if object_id c \<noteq> VA_INVALID_ID then [VaDestroyContext (object_id c)] else [])
     @ (if va_config c \<noteq> VA_INVALID_ID then [VaDestroyConfig (va_config c)] else [])"
  by (simp add: context_destroy_def Let_def case_prod_beta)

lemma context_destroy_surfaces_fields:
  "surfaces (fst (context_destroy_surfaces p c tr)) = None"
  "surfaces_pool (fst (context_destroy_surfaces p c tr)) = None"
  "object_id (fst (context_destroy_surfaces p c tr)) = object_id c"
  "va_config (fst (context_destroy_surfaces p c tr)) = va_config c"
  "info (fst (context_destroy_surfaces p c tr)) = info c"
  by (simp_all add: context_destroy_surfaces_def Let_def case_prod_beta split: option.splits)

lemma context_destroy_surfaces_teardown_steps:
  "filter is_teardown_step (snd (context_destroy_surfaces p c tr)) =
     filter is_teardown_step tr @ [Gst_vaapi_context_overlay_reset]
     @ map Gst_vaapi_object_unref (case surfaces c of None \<Rightarrow> [] | Some arr \<Rightarrow> arr)"
  by (simp add: context_destroy_surfaces_def gst_vaapi_context_overlay_reset_def Let_def case_prod_beta
        g_ptr_array_unref_trace filter_unref_teardown split: option.splits)

lemma context_destroy_surfaces_va_calls:
  "filter is_va_call (snd (context_destroy_surfaces p c tr)) = filter is_va_call tr"
  by (simp add: context_destroy_surfaces_def gst_vaapi_context_overlay_reset_def Let_def case_prod_beta
        g_ptr_array_unref_trace filter_unref_va_call split: option.splits)

text \<open>
  C4. Finalizing a session leaves both handles at the invalid sentinel and no surface set
  or pool, whatever the hardware answers to the destroy calls. Its teardown steps are, in
  this order: the destruction of the context (when its identifier is valid), of the
  configuration (when valid), the overlay reset and the release of every surface, and the
  finalization of the overlay. A finalization that finds both handles at the sentinel
  makes no hardware call; in particular a second finalization makes none.
\<close>

theorem finalize_order_and_idempotence:
  "object_id (fst (gst_vaapi_context_finalize p c tr)) = VA_INVALID_ID \<and>
   va_config (fst (gst_vaapi_context_finalize p c tr)) = VA_INVALID_ID \<and>
   surfaces (fst (gst_vaapi_context_finalize p c tr)) = None \<and>
   surfaces_pool (fst (gst_vaapi_context_finalize p c tr)) = None \<and>
   filter is_teardown_step (snd (gst_vaapi_context_finalize p c tr)) =
     filter is_teardown_step tr
     @ (if object_id c \<noteq> VA_INVALID_ID then [VaDestroyContext (object_id c)] else [])
     @ (if va_config c \<noteq> VA_INVALID_ID then [VaDestroyConfig (va_config c)] else [])
     @ [Gst_vaapi_context_overlay_reset]
     @ map Gst_vaapi_object_unref (case surfaces c of None \<Rightarrow> [] | Some arr \<Rightarrow> arr)
     @ [Gst_vaapi_context_overlay_finalize] \<and>
   (object_id c = VA_INVALID_ID \<and> va_config c = VA_INVALID_ID \<longrightarrow>
      filter is_va_call (snd (gst_vaapi_context_finalize p c tr)) = filter is_va_call tr) \<and>
   filter is_va_call
     (snd (gst_vaapi_context_finalize p (fst (gst_vaapi_context_finalize p c tr))
             (snd (gst_vaapi_context_finalize p c tr)))) =
     filter is_va_call (snd (gst_vaapi_context_finalize p c tr))"
  by (simp add: gst_vaapi_context_finalize_def case_prod_beta Let_def
        context_destroy_fields context_destroy_surfaces_fields
        context_destroy_teardown_steps context_destroy_surfaces_teardown_steps
        context_destroy_va_calls context_destroy_surfaces_va_calls)

theorem finalize_order_and_idempotence_witness:
  "object_id (fst (gst_vaapi_context_finalize failing_destroy_platform example_session [])) = VA_INVALID_ID \<and>
   va_config (fst (gst_vaapi_context_finalize failing_destroy_platform example_session [])) = VA_INVALID_ID \<and>
   filter is_teardown_step (snd (gst_vaapi_context_finalize failing_destroy_platform example_session [])) =
     [VaDestroyContext 0x2000000, VaDestroyConfig 0x1000001, Gst_vaapi_context_overlay_reset,
      Gst_vaapi_object_unref (Some (example_surface 6)), Gst_vaapi_object_unref (Some (example_surface 9)),
      Gst_vaapi_object_unref (Some (example_surface 12)), Gst_vaapi_object_unref (Some (example_surface 15)),
      Gst_vaapi_context_overlay_finalize] \<and>
   filter is_va_call
     (snd (gst_vaapi_context_finalize failing_destroy_platform
             (fst (gst_vaapi_context_finalize failing_destroy_platform example_session []))
             (snd (gst_vaapi_context_finalize failing_destroy_platform example_session [])))) =
     filter is_va_call (snd (gst_vaapi_context_finalize failing_destroy_platform example_session []))"
  using finalize_order_and_idempotence [of failing_destroy_platform example_session "[]"]
  by (simp add: example_session_def VA_INVALID_ID_def)

section \<open>Properties of the surface set\<close>

lemma create_surfaces_loop_filter:
  assumes "\<And>c w h. \<not> P (Gst_vaapi_surface_new c w h)"
    and "\<And>s b. \<not> P (Gst_vaapi_surface_set_parent_context s b)"
    and "\<And>s. \<not> P (Gst_vaapi_video_pool_add_object s)"
  shows "filter P (snd (snd (snd (create_surfaces_loop p cip i n arr pool tr)))) = filter P tr"
proof (induction p cip i n arr pool tr rule: create_surfaces_loop.induct)
  case (1 p cip i n arr pool tr)
  let ?tr1 = "tr @ [Gst_vaapi_surface_new GST_VAAPI_CHROMA_TYPE_YUV420 (width cip) (height cip)]"
  show ?case
  proof (cases "i < n")
    case False
    then show ?thesis by (subst create_surfaces_loop.simps) simp
  next
    case True
    show ?thesis
    proof (cases "gst_vaapi_surface_new_ret p ?tr1")
      case None
      with True show ?thesis
        by (subst create_surfaces_loop.simps) (simp add: Let_def assms)
    next
      case (Some s)
      let ?tr3 = "(?tr1 @ [Gst_vaapi_surface_set_parent_context (Some s) True])
                    @ [Gst_vaapi_video_pool_add_object s]"
      show ?thesis
      proof (cases "gst_vaapi_video_pool_add_object_ret p ?tr3")
        case False
        with True Some show ?thesis
          by (subst create_surfaces_loop.simps) (simp add: Let_def assms)
      next
        case add: True
        have "filter P (snd (snd (snd (create_surfaces_loop p cip (i + 1) n (arr @ [Some s])
                  (pool\<lparr>free_objects := free_objects pool @ [s]\<rparr>) ?tr3)))) = filter P ?tr3"
          using "1.IH"[OF True refl Some refl refl refl] add by simp
        moreover have "create_surfaces_loop p cip i n arr pool tr =
                create_surfaces_loop p cip (i + 1) n (arr @ [Some s])
                  (pool\<lparr>free_objects := free_objects pool @ [s]\<rparr>) ?tr3"
          using True Some add by (subst create_surfaces_loop.simps) (simp add: Let_def)
        ultimately show ?thesis by (simp add: assms)
      qed
    qed
  qed
qed

text \<open>
  A loop that reports success has appended one new surface per remaining index, to the
  array and to the free objects of the pool alike.
\<close>

lemma create_surfaces_loop_success:
  assumes "fst (create_surfaces_loop p cip i n arr pool tr)"
  shows "\<exists>new. fst (snd (create_surfaces_loop p cip i n arr pool tr)) = arr @ map Some new \<and>
               fst (snd (snd (create_surfaces_loop p cip i n arr pool tr))) =
                 pool\<lparr>free_objects := free_objects pool @ new\<rparr> \<and>
               length new = n - i"
  using assms
proof (induction p cip i n arr pool tr rule: create_surfaces_loop.induct)
  case (1 p cip i n arr pool tr)
  show ?case
  proof (cases "i < n")
    case False
    then show ?thesis
      by (subst (1 2) create_surfaces_loop.simps) simp
  next
    case True
    let ?tr1 = "tr @ [Gst_vaapi_surface_new GST_VAAPI_CHROMA_TYPE_YUV420 (width cip) (height cip)]"
    from True "1.prems" obtain s where s: "gst_vaapi_surface_new_ret p ?tr1 = Some s"
      by (subst (asm) create_surfaces_loop.simps) (auto simp: Let_def split: option.splits)
    let ?tr3 = "?tr1 @ [Gst_vaapi_surface_set_parent_context (Some s) True, Gst_vaapi_video_pool_add_object s]"
    let ?pool1 = "pool\<lparr>free_objects := free_objects pool @ [s]\<rparr>"
    from True "1.prems" s have add: "gst_vaapi_video_pool_add_object_ret p ?tr3"
      by (subst (asm) create_surfaces_loop.simps) (auto simp: Let_def split: if_splits)
    have step: "create_surfaces_loop p cip i n arr pool tr =
                create_surfaces_loop p cip (i + 1) n (arr @ [Some s]) ?pool1 ?tr3"
      using True s add by (subst create_surfaces_loop.simps) (simp add: Let_def)
    from "1.IH"[OF True refl s refl refl refl] add "1.prems" step
    obtain new where new:
      "fst (snd (create_surfaces_loop p cip (i + 1) n (arr @ [Some s]) ?pool1 ?tr3)) =
         (arr @ [Some s]) @ map Some new"
      "fst (snd (snd (create_surfaces_loop p cip (i + 1) n (arr @ [Some s]) ?pool1 ?tr3))) =
         ?pool1\<lparr>free_objects := free_objects ?pool1 @ new\<rparr>"
      "length new = n - (i + 1)"
      by auto
    show ?thesis
      apply (rule exI[of _ "s # new"])
      using new True by (simp add: step)
  qed
qed

lemma context_create_surfaces_kept:
  "info (fst (snd (context_create_surfaces p c tr))) = info c"
  "object_id (fst (snd (context_create_surfaces p c tr))) = object_id c"
  "va_config (fst (snd (context_create_surfaces p c tr))) = va_config c"
  by (simp_all add: context_create_surfaces_def Let_def case_prod_beta split: option.splits)

lemma context_create_surfaces_filter:
  assumes "\<And>c w h. \<not> P (Gst_vaapi_surface_new c w h)"
    and "\<And>s b. \<not> P (Gst_vaapi_surface_set_parent_context s b)"
    and "\<And>s. \<not> P (Gst_vaapi_video_pool_add_object s)"
    and "\<And>n. \<not> P (G_ptr_array_new_full n)"
    and "\<And>f w h. \<not> P (Gst_vaapi_surface_pool_new f w h)"
  shows "filter P (snd (snd (context_create_surfaces p c tr))) =
           filter P tr @ filter P [Gst_vaapi_context_overlay_reset]"
  by (simp add: context_create_surfaces_def gst_vaapi_context_overlay_reset_def Let_def case_prod_beta
        create_surfaces_loop_filter [where P = P, OF assms(1,2,3)] assms(4,5)
        split: option.splits)

text \<open>Where \<open>context_create_surfaces\<close> reports success, the array and the pool exist.\<close>

lemma context_create_surfaces_allocates:
  assumes "fst (context_create_surfaces p c tr)"
  shows "surfaces (fst (snd (context_create_surfaces p c tr))) \<noteq> None \<and>
         surfaces_pool (fst (snd (context_create_surfaces p c tr))) \<noteq> None"
  using assms
  by (simp add: context_create_surfaces_def Let_def case_prod_beta split: option.splits if_splits)

text \<open>
  On a session with no surface set and no pool, a successful \<open>context_create_surfaces\<close>
  leaves \<open>ref_frames + 4\<close> new surfaces, all of them free in the pool.
\<close>

lemma context_create_surfaces_fresh:
  assumes "surfaces c = None" and "surfaces_pool c = None"
    and "fst (context_create_surfaces p c tr)"
  shows "\<exists>new. surfaces (fst (snd (context_create_surfaces p c tr))) = Some (map Some new) \<and>
               surfaces_pool (fst (snd (context_create_surfaces p c tr))) =
                 Some \<lparr>capacity = ref_frames (info c) + SCRATCH_SURFACES_COUNT, free_objects = new\<rparr> \<and>
               length new = unat (ref_frames (info c) + SCRATCH_SURFACES_COUNT)"
proof -
  let ?tr1 = "tr @ [Gst_vaapi_context_overlay_reset]"
  let ?num = "ref_frames (info c) + SCRATCH_SURFACES_COUNT"
  let ?tr2 = "?tr1 @ [G_ptr_array_new_full ?num]"
  let ?tr3 = "?tr2 @ [Gst_vaapi_surface_pool_new GST_VIDEO_FORMAT_ENCODED (width (info c)) (height (info c))]"
  let ?loop = "create_surfaces_loop p (info c) 0 (unat ?num) []
                 \<lparr>capacity = ?num, free_objects = []\<rparr> ?tr3"
  from assms have a: "gst_vaapi_context_overlay_reset_ret p ?tr1"
    by (simp add: context_create_surfaces_def gst_vaapi_context_overlay_reset_def Let_def case_prod_beta
          split: if_splits)
  from assms a have b: "g_ptr_array_new_full_ret p ?tr2"
    by (simp add: context_create_surfaces_def gst_vaapi_context_overlay_reset_def Let_def case_prod_beta
          split: if_splits)
  from assms a b have d: "gst_vaapi_surface_pool_new_ret p ?tr3"
    by (simp add: context_create_surfaces_def gst_vaapi_context_overlay_reset_def Let_def case_prod_beta
          split: if_splits)
  have eq: "context_create_surfaces p c tr =
              (fst ?loop,
               c\<lparr>surfaces := Some (fst (snd ?loop)), surfaces_pool := Some (fst (snd (snd ?loop)))\<rparr>,
               snd (snd (snd ?loop)))"
    using assms(1,2) a b d
    by (simp add: context_create_surfaces_def gst_vaapi_context_overlay_reset_def Let_def case_prod_beta
          gst_vaapi_video_pool_set_capacity_def)
  with assms(3) have "fst ?loop" by simp
  from create_surfaces_loop_success[OF this] obtain new where
    "fst (snd ?loop) = map Some new"
    "fst (snd (snd ?loop)) = \<lparr>capacity = ?num, free_objects = new\<rparr>"
    "length new = unat ?num"
    by auto
  then show ?thesis by (simp add: eq)
qed

section \<open>Properties of the creation\<close>

lemma context_create_context_kept:
  "info (fst (snd (context_create_context p c ids tr))) = info c"
  "surfaces (fst (snd (context_create_context p c ids tr))) = surfaces c"
  "surfaces_pool (fst (snd (context_create_context p c ids tr))) = surfaces_pool c"
  "va_config (fst (snd (context_create_context p c ids tr))) = va_config c"
  "va_profile (fst (snd (context_create_context p c ids tr))) = va_profile c"
  "va_entrypoint (fst (snd (context_create_context p c ids tr))) = va_entrypoint c"
  by (simp_all add: context_create_context_def Let_def case_prod_beta)

lemma context_create_va_config_kept:
  "info (fst (snd (context_create_va_config p c as ids tr))) = info c"
  "surfaces (fst (snd (context_create_va_config p c as ids tr))) = surfaces c"
  "surfaces_pool (fst (snd (context_create_va_config p c as ids tr))) = surfaces_pool c"
  "va_profile (fst (snd (context_create_va_config p c as ids tr))) = va_profile c"
  "va_entrypoint (fst (snd (context_create_va_config p c as ids tr))) = va_entrypoint c"
  by (simp_all add: context_create_va_config_def Let_def case_prod_beta context_create_context_kept
        split: option.splits)

lemma context_create_attribs_kept:
  "info (fst (snd (context_create_attribs p c ids tr))) = info c"
  "surfaces (fst (snd (context_create_attribs p c ids tr))) = surfaces c"
  "surfaces_pool (fst (snd (context_create_attribs p c ids tr))) = surfaces_pool c"
  "va_profile (fst (snd (context_create_attribs p c ids tr))) = va_profile c"
  "va_entrypoint (fst (snd (context_create_attribs p c ids tr))) = va_entrypoint c"
  by (simp_all add: context_create_attribs_def Let_def case_prod_beta context_create_va_config_kept)

lemma context_create_context_failure:
  "\<not> fst (context_create_context p c ids tr) \<Longrightarrow>
   object_id (fst (snd (context_create_context p c ids tr))) = object_id c"
  by (simp add: context_create_context_def Let_def case_prod_beta split: if_splits)

lemma context_create_va_config_failure:
  "\<not> fst (context_create_va_config p c as ids tr) \<Longrightarrow>
   object_id (fst (snd (context_create_va_config p c as ids tr))) = object_id c"
  by (simp add: context_create_va_config_def Let_def case_prod_beta context_create_context_failure
        split: if_splits option.splits)

lemma context_create_attribs_failure:
  "\<not> fst (context_create_attribs p c ids tr) \<Longrightarrow>
   object_id (fst (snd (context_create_attribs p c ids tr))) = object_id c"
  by (simp add: context_create_attribs_def Let_def case_prod_beta context_create_va_config_failure
        split: if_splits)

lemma context_create_context_errors:
  "filter is_GST_ERROR (snd (snd (context_create_context p c ids tr))) = filter is_GST_ERROR tr"
  by (simp add: context_create_context_def Let_def case_prod_beta)

lemma context_create_va_config_errors:
  "filter is_GST_ERROR (snd (snd (context_create_va_config p c as ids tr))) = filter is_GST_ERROR tr"
  by (simp add: context_create_va_config_def Let_def case_prod_beta context_create_context_errors)

lemma context_create_context_success:
  assumes "fst (context_create_context p c ids tr)"
  shows "snd (snd (context_create_context p c ids tr)) =
           tr @ [GST_VAAPI_DISPLAY_LOCK,
                 VaCreateContext (va_config c) (width (info c)) (height (info c)) VA_PROGRESSIVE ids,
                 GST_VAAPI_DISPLAY_UNLOCK,
                 GST_DEBUG ''context 0x%08x'' (object_id (fst (snd (context_create_context p c ids tr))))] \<and>
         vaCreateContext_ret p
           (tr @ [GST_VAAPI_DISPLAY_LOCK,
                  VaCreateContext (va_config c) (width (info c)) (height (info c)) VA_PROGRESSIVE ids]) =
           (VA_STATUS_SUCCESS, object_id (fst (snd (context_create_context p c ids tr))))"
  using assms
  by (simp add: context_create_context_def Let_def case_prod_beta vaapi_check_status_def prod_eq_iff
        split: if_splits)

lemma context_create_va_config_success:
  assumes "fst (context_create_va_config p c as ids tr)"
  shows "snd (snd (context_create_va_config p c as ids tr)) =
           tr @ [GST_VAAPI_DISPLAY_LOCK, VaCreateConfig (va_profile c) (va_entrypoint c) as,
                 GST_VAAPI_DISPLAY_UNLOCK,
                 GST_VAAPI_DISPLAY_LOCK,
                 VaCreateContext (va_config (fst (snd (context_create_va_config p c as ids tr))))
                   (width (info c)) (height (info c)) VA_PROGRESSIVE ids,
                 GST_VAAPI_DISPLAY_UNLOCK,
                 GST_DEBUG ''context 0x%08x'' (object_id (fst (snd (context_create_va_config p c as ids tr))))] \<and>
         vaapi_check_status (fst (vaCreateConfig_ret p
           (tr @ [GST_VAAPI_DISPLAY_LOCK, VaCreateConfig (va_profile c) (va_entrypoint c) as]))) \<and>
         vaCreateContext_ret p
           (tr @ [GST_VAAPI_DISPLAY_LOCK, VaCreateConfig (va_profile c) (va_entrypoint c) as,
                  GST_VAAPI_DISPLAY_UNLOCK,
                  GST_VAAPI_DISPLAY_LOCK,
                  VaCreateContext (va_config (fst (snd (context_create_va_config p c as ids tr))))
                    (width (info c)) (height (info c)) VA_PROGRESSIVE ids]) =
           (VA_STATUS_SUCCESS, object_id (fst (snd (context_create_va_config p c as ids tr))))"
proof -
  let ?h = "tr @ [GST_VAAPI_DISPLAY_LOCK, VaCreateConfig (va_profile c) (va_entrypoint c) as]"
  let ?c1 = "case snd (vaCreateConfig_ret p ?h) of Some config \<Rightarrow> c\<lparr>va_config := config\<rparr> | None \<Rightarrow> c"
  have ok: "vaapi_check_status (fst (vaCreateConfig_ret p ?h))"
    using assms by (simp add: context_create_va_config_def Let_def case_prod_beta split: if_splits)
  then have eq: "context_create_va_config p c as ids tr =
              context_create_context p ?c1 ids (?h @ [GST_VAAPI_DISPLAY_UNLOCK])"
    by (simp add: context_create_va_config_def Let_def case_prod_beta)
  have kept: "info ?c1 = info c" by (simp split: option.splits)
  have cfg: "va_config (fst (snd (context_create_context p ?c1 ids (?h @ [GST_VAAPI_DISPLAY_UNLOCK])))) = va_config ?c1"
    by (rule context_create_context_kept)
  from assms eq have "fst (context_create_context p ?c1 ids (?h @ [GST_VAAPI_DISPLAY_UNLOCK]))"
    by simp
  from context_create_context_success[OF this] ok show ?thesis
    unfolding eq cfg kept by simp
qed

lemma context_create_attribs_success:
  assumes "fst (context_create_attribs p c ids tr)"
  shows "\<exists>as. snd (snd (context_create_attribs p c ids tr)) =
           attribs_query c tr @
             [GST_VAAPI_DISPLAY_UNLOCK,
              GST_VAAPI_DISPLAY_LOCK, VaCreateConfig (va_profile c) (va_entrypoint c) as,
              GST_VAAPI_DISPLAY_UNLOCK,
              GST_VAAPI_DISPLAY_LOCK,
              VaCreateContext (va_config (fst (snd (context_create_attribs p c ids tr))))
                (width (info c)) (height (info c)) VA_PROGRESSIVE ids,
              GST_VAAPI_DISPLAY_UNLOCK,
              GST_DEBUG ''context 0x%08x'' (object_id (fst (snd (context_create_attribs p c ids tr))))] \<and>
         vaapi_check_status (fst (vaGetConfigAttributes_ret p (attribs_query c tr))) \<and>
         snd (vaGetConfigAttributes_ret p (attribs_query c tr)) 0 AND VA_RT_FORMAT_YUV420 \<noteq> 0 \<and>
         vaapi_check_status (fst (vaCreateConfig_ret p
           (attribs_query c tr @
              [GST_VAAPI_DISPLAY_UNLOCK,
               GST_VAAPI_DISPLAY_LOCK, VaCreateConfig (va_profile c) (va_entrypoint c) as]))) \<and>
         vaCreateContext_ret p
           (attribs_query c tr @
              [GST_VAAPI_DISPLAY_UNLOCK,
               GST_VAAPI_DISPLAY_LOCK, VaCreateConfig (va_profile c) (va_entrypoint c) as,
               GST_VAAPI_DISPLAY_UNLOCK,
               GST_VAAPI_DISPLAY_LOCK,
               VaCreateContext (va_config (fst (snd (context_create_attribs p c ids tr))))
                 (width (info c)) (height (info c)) VA_PROGRESSIVE ids]) =
           (VA_STATUS_SUCCESS, object_id (fst (snd (context_create_attribs p c ids tr))))"
proof -
  let ?q = "attribs_query c tr"
  have ok: "vaapi_check_status (fst (vaGetConfigAttributes_ret p ?q))"
    and yuv: "snd (vaGetConfigAttributes_ret p ?q) 0 AND VA_RT_FORMAT_YUV420 \<noteq> 0"
    using assms
    by (simp_all add: context_create_attribs_def attribs_query_def Let_def case_prod_beta split: if_splits)
  obtain as where eq: "context_create_attribs p c ids tr =
      context_create_va_config p c as ids (?q @ [GST_VAAPI_DISPLAY_UNLOCK])"
    using assms ok yuv
    by (simp add: context_create_attribs_def attribs_query_def Let_def case_prod_beta split: if_splits)
  from assms eq have "fst (context_create_va_config p c as ids (?q @ [GST_VAAPI_DISPLAY_UNLOCK]))"
    by simp
  from context_create_va_config_success[OF this] ok yuv show ?thesis
    unfolding eq by (intro exI[of _ as]) simp
qed

lemma context_create_surfaces_va_calls:
  "filter is_va_call (snd (snd (context_create_surfaces p c tr))) = filter is_va_call tr"
  using context_create_surfaces_filter [where P = is_va_call and p = p and c = c and tr = tr] by simp

text \<open>What \<open>context_create\<close> does before line 179, and how the rest continues from it.\<close>

lemma context_create_reaches_attribs:
  assumes "fst (context_create p c tr)"
  shows "\<exists>c1 tr1 arr ids.
           filter is_va_call tr1 = filter is_va_call tr \<and>
           object_id c1 = object_id c \<and> info c1 = info c \<and>
           surfaces c1 = Some arr \<and> snapshot_surface_ids arr = Some ids \<and>
           context_create p c tr =
             (fst (context_create_attribs p c1 ids tr1),
              fst (snd (context_create_attribs p c1 ids tr1)),
              snd (snd (context_create_attribs p c1 ids tr1)) @ [G_array_free])"
proof -
  let ?s = "if surfaces c = None then context_create_surfaces p c tr else (True, c, tr)"
  let ?c0 = "fst (snd ?s)"
  let ?tr0 = "snd (snd ?s)"
  have va: "filter is_va_call ?tr0 = filter is_va_call tr"
    by (simp add: context_create_surfaces_va_calls)
  have kept: "object_id ?c0 = object_id c" "info ?c0 = info c"
    by (simp_all add: context_create_surfaces_kept)
  from assms have s_ok: "fst ?s"
    by (simp add: context_create_def Let_def case_prod_beta split: if_splits)
  from assms s_ok obtain arr where arr: "surfaces ?c0 = Some arr"
    by (cases "surfaces ?c0") (simp_all add: context_create_def Let_def case_prod_beta)
  let ?tr2 = "?tr0 @ [G_array_sized_new (length arr)]"
  from assms s_ok arr have sized: "g_array_sized_new_ret p ?tr2"
    by (simp add: context_create_def Let_def case_prod_beta split: if_splits)
  from assms s_ok arr sized obtain ids where ids: "snapshot_surface_ids arr = Some ids"
    by (cases "snapshot_surface_ids arr") (simp_all add: context_create_def Let_def case_prod_beta)
  from assms s_ok arr sized ids have nz: "profile (info ?c0) \<noteq> 0" "entrypoint (info ?c0) \<noteq> 0"
    by (simp_all add: context_create_def Let_def case_prod_beta split: if_splits)
  let ?c1 = "?c0\<lparr>va_profile := gst_vaapi_profile_get_va_profile p (profile (info ?c0)),
                  va_entrypoint := gst_vaapi_entrypoint_get_va_entrypoint p (entrypoint (info ?c0))\<rparr>"
  have eq: "context_create p c tr =
             (fst (context_create_attribs p ?c1 ids ?tr2),
              fst (snd (context_create_attribs p ?c1 ids ?tr2)),
              snd (snd (context_create_attribs p ?c1 ids ?tr2)) @ [G_array_free])"
    using s_ok arr sized ids nz
    by (simp add: context_create_def Let_def case_prod_beta)
  show ?thesis
    apply (rule exI[of _ ?c1], rule exI[of _ ?tr2], rule exI[of _ arr], rule exI[of _ ids])
    using va kept arr ids eq by simp
qed

lemma context_create_failure:
  assumes "\<not> fst (context_create p c tr)"
  shows "object_id (fst (snd (context_create p c tr))) = object_id c"
proof -
  let ?s = "if surfaces c = None then context_create_surfaces p c tr else (True, c, tr)"
  have kept: "object_id (fst (snd ?s)) = object_id c"
    by (simp add: context_create_surfaces_kept)
  show ?thesis
    using assms kept
    by (auto simp add: context_create_def Let_def case_prod_beta context_create_attribs_failure
          context_create_surfaces_kept split: option.splits if_splits)
qed

text \<open>
  On a session that has its surface array, \<open>context_create\<close> is the part from line 179
  on, run after the identifiers were read, followed by the release of their copy.
\<close>

lemma context_create_with_surfaces:
  assumes "surfaces c = Some arr"
    and "g_array_sized_new_ret p (tr @ [G_array_sized_new (length arr)])"
    and "snapshot_surface_ids arr = Some ids"
    and "profile (info c) \<noteq> 0" and "entrypoint (info c) \<noteq> 0"
    and "c1 = c\<lparr>va_profile := gst_vaapi_profile_get_va_profile p (profile (info c)),
                  va_entrypoint := gst_vaapi_entrypoint_get_va_entrypoint p (entrypoint (info c))\<rparr>"
  shows "context_create p c tr =
           (fst (context_create_attribs p c1 ids (tr @ [G_array_sized_new (length arr)])),
            fst (snd (context_create_attribs p c1 ids (tr @ [G_array_sized_new (length arr)]))),
            snd (snd (context_create_attribs p c1 ids (tr @ [G_array_sized_new (length arr)])))
              @ [G_array_free])"
  using assms by (simp add: context_create_def Let_def case_prod_beta)

text \<open>
  C8. When \<open>context_create\<close> queries the hardware (line 185) and the value returned for
  the format attribute lacks the 4:2:0 bit, the rest of the function fails: no further call
  is made (neither \<open>vaCreateConfig\<close> nor \<open>vaCreateContext\<close>) and the session is left as
  it was.
\<close>

theorem yuv420_required:
  assumes "snd (vaGetConfigAttributes_ret p (attribs_query context tr)) 0 AND VA_RT_FORMAT_YUV420 = 0"
  shows "context_create_attribs p context ids tr =
           (False, context, attribs_query context tr @ [GST_VAAPI_DISPLAY_UNLOCK])"
  using assms by (simp add: context_create_attribs_def attribs_query_def Let_def case_prod_beta)

theorem yuv420_required_witness:
  "snd (vaGetConfigAttributes_ret no_yuv420_platform
          (attribs_query example_session [G_array_sized_new 4])) 0
     AND VA_RT_FORMAT_YUV420 = 0 \<and>
   context_create_attribs no_yuv420_platform example_session [6, 9, 12, 15] [G_array_sized_new 4] =
     (False, example_session,
      [G_array_sized_new 4,
       GST_VAAPI_DISPLAY_LOCK, VaGetConfigAttributes 6 6 [0, 5], GST_VAAPI_DISPLAY_UNLOCK]) \<and>
   context_create no_yuv420_platform example_session [] =
     (False, example_session,
      [G_array_sized_new 4,
       GST_VAAPI_DISPLAY_LOCK, VaGetConfigAttributes 6 6 [0, 5], GST_VAAPI_DISPLAY_UNLOCK,
       G_array_free])"
proof -
  have h: "snd (vaGetConfigAttributes_ret no_yuv420_platform
                  (attribs_query example_session [G_array_sized_new 4])) 0
             AND VA_RT_FORMAT_YUV420 = 0"
    by (simp add: no_yuv420_platform_def VA_RT_FORMAT_YUV420_def)
  have tail: "context_create_attribs no_yuv420_platform example_session [6, 9, 12, 15] [G_array_sized_new 4] =
     (False, example_session,
      [G_array_sized_new 4,
       GST_VAAPI_DISPLAY_LOCK, VaGetConfigAttributes 6 6 [0, 5], GST_VAAPI_DISPLAY_UNLOCK])"
    using yuv420_required [OF h, of "[6, 9, 12, 15]"]
    by (simp add: attribs_query_def example_session_def example_info_def
          GST_VAAPI_ENTRYPOINT_SLICE_ENCODE_def VAConfigAttribRTFormat_def VAConfigAttribRateControl_def)
  let ?arr = "[Some (example_surface 6), Some (example_surface 9),
               Some (example_surface 12), Some (example_surface 15)]"
  have len: "length ?arr = 4" by simp
  have p1: "surfaces example_session = Some ?arr"
    by (simp add: example_session_def)
  have p2: "g_array_sized_new_ret no_yuv420_platform ([] @ [G_array_sized_new (length ?arr)])"
    by (simp add: no_yuv420_platform_def example_platform_def)
  have p3: "snapshot_surface_ids ?arr = Some [6, 9, 12, 15]"
    by (simp add: example_surface_def)
  have p4: "profile (info example_session) \<noteq> 0" "entrypoint (info example_session) \<noteq> 0"
    by (simp_all add: example_session_def example_info_def)
  have p5: "example_session =
              example_session\<lparr>va_profile :=
                                gst_vaapi_profile_get_va_profile no_yuv420_platform
                                  (profile (info example_session)),
                              va_entrypoint :=
                                gst_vaapi_entrypoint_get_va_entrypoint no_yuv420_platform
                                  (entrypoint (info example_session))\<rparr>"
    by (simp add: example_session_def no_yuv420_platform_def example_platform_def)
  have whole: "context_create no_yuv420_platform example_session [] =
     (False, example_session,
      [G_array_sized_new 4,
       GST_VAAPI_DISPLAY_LOCK, VaGetConfigAttributes 6 6 [0, 5], GST_VAAPI_DISPLAY_UNLOCK,
       G_array_free])"
    using context_create_with_surfaces [OF p1 p2 p3 p4 p5] unfolding len by (simp add: tail)
  from h tail whole show ?thesis by simp
qed

text \<open>
  C5. With a slice-encode entry point, a successful query and 4:2:0 support: when the
  requested mode maps to \<open>VA_RC_NONE\<close>, the creation goes on to \<open>vaCreateConfig\<close> with the
  rate-control attribute set to \<open>VA_RC_NONE\<close>, whatever the hardware reported; otherwise
  it stops with the error "unsupported %s rate control", naming the requested mode, when
  the reported mask lacks a bit of the mode's code, and goes on to \<open>vaCreateConfig\<close>
  with the mode's code when the mask has them all. That error is the only one the function
  logs, so it is logged exactly in the second case.
\<close>

theorem rate_control_check:
  assumes "entrypoint (info context) = GST_VAAPI_ENTRYPOINT_SLICE_ENCODE"
    and "vaGetConfigAttributes_ret p (attribs_query context tr) = (status, attrib_values)"
    and "vaapi_check_status status"
    and "attrib_values 0 AND VA_RT_FORMAT_YUV420 \<noteq> 0"
    and "va_rate_control = from_GstVaapiRateControl p (rc_mode (info context))"
  shows "(va_rate_control = VA_RC_NONE \<longrightarrow>
            context_create_attribs p context ids tr =
              context_create_va_config p context
                [\<lparr>attrib_type = VAConfigAttribRTFormat, attrib_value = attrib_values 0\<rparr>,
                 \<lparr>attrib_type = VAConfigAttribRateControl, attrib_value = VA_RC_NONE\<rparr>]
                ids (attribs_query context tr @ [GST_VAAPI_DISPLAY_UNLOCK])) \<and>
         (va_rate_control \<noteq> VA_RC_NONE \<longrightarrow>
            (if attrib_values 1 AND va_rate_control \<noteq> va_rate_control
             then context_create_attribs p context ids tr =
                    (False, context,
                     attribs_query context tr @
                       [GST_VAAPI_DISPLAY_UNLOCK,
                        GST_ERROR ''unsupported %s rate control'' (string_of_VARateControl p va_rate_control)])
             else context_create_attribs p context ids tr =
                    context_create_va_config p context
                      [\<lparr>attrib_type = VAConfigAttribRTFormat, attrib_value = attrib_values 0\<rparr>,
                       \<lparr>attrib_type = VAConfigAttribRateControl, attrib_value = va_rate_control\<rparr>]
                      ids (attribs_query context tr @ [GST_VAAPI_DISPLAY_UNLOCK]))) \<and>
         filter is_GST_ERROR (snd (snd (context_create_attribs p context ids tr))) =
           filter is_GST_ERROR tr @
             (if va_rate_control \<noteq> VA_RC_NONE \<and> attrib_values 1 AND va_rate_control \<noteq> va_rate_control
              then [GST_ERROR ''unsupported %s rate control'' (string_of_VARateControl p va_rate_control)]
              else [])"
  using assms
  by (simp add: context_create_attribs_def attribs_query_def Let_def case_prod_beta
        context_create_va_config_errors)

theorem rate_control_check_witness:
  "context_create_attribs cbr_only_platform (example_session\<lparr>info := example_info\<lparr>rc_mode := 4\<rparr>\<rparr>)
     [6, 9, 12, 15] [] =
     (False, example_session\<lparr>info := example_info\<lparr>rc_mode := 4\<rparr>\<rparr>,
      [GST_VAAPI_DISPLAY_LOCK, VaGetConfigAttributes 6 6 [0, 5], GST_VAAPI_DISPLAY_UNLOCK,
       GST_ERROR ''unsupported %s rate control'' ''VBR'']) \<and>
   fst (context_create_attribs cbr_only_platform (example_session\<lparr>info := example_info\<lparr>rc_mode := 0\<rparr>\<rparr>)
     [6, 9, 12, 15] []) \<and>
   VaCreateConfig 6 6 [\<lparr>attrib_type = 0, attrib_value = 1\<rparr>, \<lparr>attrib_type = 5, attrib_value = 1\<rparr>]
     \<in> set (snd (snd (context_create_attribs cbr_only_platform
                        (example_session\<lparr>info := example_info\<lparr>rc_mode := 0\<rparr>\<rparr>) [6, 9, 12, 15] []))) \<and>
   context_create cbr_only_platform (example_session\<lparr>info := example_info\<lparr>rc_mode := 4\<rparr>\<rparr>) [] =
     (False, example_session\<lparr>info := example_info\<lparr>rc_mode := 4\<rparr>\<rparr>,
      [G_array_sized_new 4,
       GST_VAAPI_DISPLAY_LOCK, VaGetConfigAttributes 6 6 [0, 5], GST_VAAPI_DISPLAY_UNLOCK,
       GST_ERROR ''unsupported %s rate control'' ''VBR'', G_array_free])"
proof -
  have whole: "context_create cbr_only_platform (example_session\<lparr>info := example_info\<lparr>rc_mode := 4\<rparr>\<rparr>) [] =
     (False, example_session\<lparr>info := example_info\<lparr>rc_mode := 4\<rparr>\<rparr>,
      [G_array_sized_new 4,
       GST_VAAPI_DISPLAY_LOCK, VaGetConfigAttributes 6 6 [0, 5], GST_VAAPI_DISPLAY_UNLOCK,
       GST_ERROR ''unsupported %s rate control'' ''VBR'', G_array_free])"
    by (simp add: model_defs example_defs)
  let ?vbr = "example_session\<lparr>info := example_info\<lparr>rc_mode := 4\<rparr>\<rparr>"
  let ?none = "example_session\<lparr>info := example_info\<lparr>rc_mode := 0\<rparr>\<rparr>"
  let ?caps = "\<lambda>i::nat. if i = 0 then 1 else (2::guint)"
  have e: "entrypoint (info ?vbr) = GST_VAAPI_ENTRYPOINT_SLICE_ENCODE"
          "entrypoint (info ?none) = GST_VAAPI_ENTRYPOINT_SLICE_ENCODE"
    by (simp_all add: example_info_def GST_VAAPI_ENTRYPOINT_SLICE_ENCODE_def)
  have q: "vaGetConfigAttributes_ret cbr_only_platform (attribs_query ?vbr []) = (0, ?caps)"
          "vaGetConfigAttributes_ret cbr_only_platform (attribs_query ?none []) = (0, ?caps)"
    by (simp_all add: cbr_only_platform_def)
  have s: "vaapi_check_status 0" by (simp add: vaapi_check_status_def VA_STATUS_SUCCESS_def)
  have y: "?caps 0 AND VA_RT_FORMAT_YUV420 \<noteq> 0" by (simp add: VA_RT_FORMAT_YUV420_def)
  have r: "(4::guint) = from_GstVaapiRateControl cbr_only_platform (rc_mode (info ?vbr))"
          "(1::guint) = from_GstVaapiRateControl cbr_only_platform (rc_mode (info ?none))"
    by (simp_all add: cbr_only_platform_def example_platform_def example_info_def)
  note vbr = rate_control_check [OF e(1) q(1) s y r(1), of "[6, 9, 12, 15]"]
  note none = rate_control_check [OF e(2) q(2) s y r(2), of "[6, 9, 12, 15]"]
  have 1: "context_create_attribs cbr_only_platform ?vbr [6, 9, 12, 15] [] =
     (False, ?vbr,
      [GST_VAAPI_DISPLAY_LOCK, VaGetConfigAttributes 6 6 [0, 5], GST_VAAPI_DISPLAY_UNLOCK,
       GST_ERROR ''unsupported %s rate control'' ''VBR''])"
    using vbr
    by (simp add: VA_RC_NONE_def attribs_query_def example_session_def example_info_def
          cbr_only_platform_def example_platform_def
          GST_VAAPI_ENTRYPOINT_SLICE_ENCODE_def VAConfigAttribRTFormat_def VAConfigAttribRateControl_def)
  have 2: "context_create_attribs cbr_only_platform ?none [6, 9, 12, 15] [] =
             context_create_va_config cbr_only_platform ?none
                [\<lparr>attrib_type = 0, attrib_value = 1\<rparr>, \<lparr>attrib_type = 5, attrib_value = 1\<rparr>]
                [6, 9, 12, 15]
                [GST_VAAPI_DISPLAY_LOCK, VaGetConfigAttributes 6 6 [0, 5], GST_VAAPI_DISPLAY_UNLOCK]"
    using none
    by (simp add: VA_RC_NONE_def attribs_query_def example_session_def example_info_def
          GST_VAAPI_ENTRYPOINT_SLICE_ENCODE_def VAConfigAttribRTFormat_def VAConfigAttribRateControl_def)
  have 3: "fst (context_create_va_config cbr_only_platform ?none
                [\<lparr>attrib_type = 0, attrib_value = 1\<rparr>, \<lparr>attrib_type = 5, attrib_value = 1\<rparr>]
                [6, 9, 12, 15]
                [GST_VAAPI_DISPLAY_LOCK, VaGetConfigAttributes 6 6 [0, 5], GST_VAAPI_DISPLAY_UNLOCK]) \<and>
     VaCreateConfig 6 6 [\<lparr>attrib_type = 0, attrib_value = 1\<rparr>, \<lparr>attrib_type = 5, attrib_value = 1\<rparr>]
       \<in> set (snd (snd (context_create_va_config cbr_only_platform ?none
                [\<lparr>attrib_type = 0, attrib_value = 1\<rparr>, \<lparr>attrib_type = 5, attrib_value = 1\<rparr>]
                [6, 9, 12, 15]
                [GST_VAAPI_DISPLAY_LOCK, VaGetConfigAttributes 6 6 [0, 5], GST_VAAPI_DISPLAY_UNLOCK])))"
    by (simp add: context_create_va_config_def context_create_context_def Let_def
          cbr_only_platform_def example_platform_def example_session_def
          vaapi_check_status_def VA_STATUS_SUCCESS_def)
  from 1 2 3 whole show ?thesis by simp
qed

lemma context_create_success:
  assumes ok: "fst (context_create p c tr)"
  shows "\<exists>c' pre arr ids as.
         fst (snd (context_create p c tr)) = c' \<and>
         filter is_va_call pre = filter is_va_call tr \<and>
         surfaces c' = Some arr \<and> snapshot_surface_ids arr = Some ids \<and>
         profile (info c') \<noteq> 0 \<and> entrypoint (info c') \<noteq> 0 \<and>
         snd (snd (context_create p c tr)) =
           attribs_query c' pre @
             [GST_VAAPI_DISPLAY_UNLOCK,
              GST_VAAPI_DISPLAY_LOCK, VaCreateConfig (va_profile c') (va_entrypoint c') as,
              GST_VAAPI_DISPLAY_UNLOCK,
              GST_VAAPI_DISPLAY_LOCK,
              VaCreateContext (va_config c') (width (info c')) (height (info c')) VA_PROGRESSIVE ids,
              GST_VAAPI_DISPLAY_UNLOCK,
              GST_DEBUG ''context 0x%08x'' (object_id c'),
              G_array_free] \<and>
         vaapi_check_status (fst (vaGetConfigAttributes_ret p (attribs_query c' pre))) \<and>
         snd (vaGetConfigAttributes_ret p (attribs_query c' pre)) 0 AND VA_RT_FORMAT_YUV420 \<noteq> 0 \<and>
         vaapi_check_status (fst (vaCreateConfig_ret p
           (attribs_query c' pre @
              [GST_VAAPI_DISPLAY_UNLOCK,
               GST_VAAPI_DISPLAY_LOCK, VaCreateConfig (va_profile c') (va_entrypoint c') as]))) \<and>
         vaCreateContext_ret p
           (attribs_query c' pre @
              [GST_VAAPI_DISPLAY_UNLOCK,
               GST_VAAPI_DISPLAY_LOCK, VaCreateConfig (va_profile c') (va_entrypoint c') as,
               GST_VAAPI_DISPLAY_UNLOCK,
               GST_VAAPI_DISPLAY_LOCK,
               VaCreateContext (va_config c') (width (info c')) (height (info c')) VA_PROGRESSIVE ids]) =
           (VA_STATUS_SUCCESS, object_id c')"
proof -
  from context_create_reaches_attribs[OF ok] obtain c1 tr1 arr ids where
    va: "filter is_va_call tr1 = filter is_va_call tr"
    and arr: "surfaces c1 = Some arr" and ids: "snapshot_surface_ids arr = Some ids"
    and info1: "info c1 = info c"
    and eq: "context_create p c tr =
             (fst (context_create_attribs p c1 ids tr1),
              fst (snd (context_create_attribs p c1 ids tr1)),
              snd (snd (context_create_attribs p c1 ids tr1)) @ [G_array_free])"
    by blast
  let ?c' = "fst (snd (context_create_attribs p c1 ids tr1))"
  from ok eq have ok1: "fst (context_create_attribs p c1 ids tr1)" by simp
  from context_create_attribs_success[OF ok1] obtain as where as:
    "snd (snd (context_create_attribs p c1 ids tr1)) =
           attribs_query c1 tr1 @
             [GST_VAAPI_DISPLAY_UNLOCK,
              GST_VAAPI_DISPLAY_LOCK, VaCreateConfig (va_profile c1) (va_entrypoint c1) as,
              GST_VAAPI_DISPLAY_UNLOCK,
              GST_VAAPI_DISPLAY_LOCK,
              VaCreateContext (va_config ?c') (width (info c1)) (height (info c1)) VA_PROGRESSIVE ids,
              GST_VAAPI_DISPLAY_UNLOCK,
              GST_DEBUG ''context 0x%08x'' (object_id ?c')]"
    "vaapi_check_status (fst (vaGetConfigAttributes_ret p (attribs_query c1 tr1)))"
    "snd (vaGetConfigAttributes_ret p (attribs_query c1 tr1)) 0 AND VA_RT_FORMAT_YUV420 \<noteq> 0"
    "vaapi_check_status (fst (vaCreateConfig_ret p
           (attribs_query c1 tr1 @
              [GST_VAAPI_DISPLAY_UNLOCK,
               GST_VAAPI_DISPLAY_LOCK, VaCreateConfig (va_profile c1) (va_entrypoint c1) as])))"
    "vaCreateContext_ret p
           (attribs_query c1 tr1 @
              [GST_VAAPI_DISPLAY_UNLOCK,
               GST_VAAPI_DISPLAY_LOCK, VaCreateConfig (va_profile c1) (va_entrypoint c1) as,
               GST_VAAPI_DISPLAY_UNLOCK,
               GST_VAAPI_DISPLAY_LOCK,
               VaCreateContext (va_config ?c') (width (info c1)) (height (info c1)) VA_PROGRESSIVE ids]) =
           (VA_STATUS_SUCCESS, object_id ?c')"
    by blast
  have q: "attribs_query ?c' tr1 = attribs_query c1 tr1"
    by (simp add: attribs_query_def context_create_attribs_kept)
  have nz: "profile (info c) \<noteq> 0 \<and> entrypoint (info c) \<noteq> 0"
    using ok by (auto simp add: context_create_def Let_def case_prod_beta context_create_surfaces_kept
                   split: option.splits if_splits)
  show ?thesis
    apply (rule exI[of _ ?c'], rule exI[of _ tr1], rule exI[of _ arr], rule exI[of _ ids], rule exI[of _ as])
    using va arr ids info1 nz as unfolding q
    by (simp add: eq context_create_attribs_kept)
qed

text \<open>
  Where the part of \<open>context_create\<close> from line 179 on succeeds, the query succeeded, the
  format and rate-control checks passed, and the function went on to \<open>vaCreateConfig\<close>
  with the attribute list that lines 190 to 203 leave in \<open>attribs\<close>.
\<close>

lemma context_create_attribs_checks:
  assumes "fst (context_create_attribs p c ids tr)"
  shows "vaapi_check_status (fst (vaGetConfigAttributes_ret p (attribs_query c tr))) \<and>
         snd (vaGetConfigAttributes_ret p (attribs_query c tr)) 0 AND VA_RT_FORMAT_YUV420 \<noteq> 0 \<and>
         (entrypoint (info c) = GST_VAAPI_ENTRYPOINT_SLICE_ENCODE \<longrightarrow>
            (if from_GstVaapiRateControl p (rc_mode (info c)) = VA_RC_NONE then VA_RC_NONE
             else snd (vaGetConfigAttributes_ret p (attribs_query c tr)) 1)
              AND from_GstVaapiRateControl p (rc_mode (info c)) =
            from_GstVaapiRateControl p (rc_mode (info c))) \<and>
         context_create_attribs p c ids tr =
           context_create_va_config p c
             (if entrypoint (info c) = GST_VAAPI_ENTRYPOINT_SLICE_ENCODE
              then [\<lparr>attrib_type = VAConfigAttribRTFormat,
                      attrib_value = snd (vaGetConfigAttributes_ret p (attribs_query c tr)) 0\<rparr>,
                    \<lparr>attrib_type = VAConfigAttribRateControl,
                      attrib_value = from_GstVaapiRateControl p (rc_mode (info c))\<rparr>]
              else [\<lparr>attrib_type = VAConfigAttribRTFormat,
                      attrib_value = snd (vaGetConfigAttributes_ret p (attribs_query c tr)) 0\<rparr>])
             ids (attribs_query c tr @ [GST_VAAPI_DISPLAY_UNLOCK])"
proof -
  let ?q = "attribs_query c tr"
  let ?rc = "from_GstVaapiRateControl p (rc_mode (info c))"
  let ?v1 = "if ?rc = VA_RC_NONE then VA_RC_NONE else snd (vaGetConfigAttributes_ret p ?q) 1"
  have ok: "vaapi_check_status (fst (vaGetConfigAttributes_ret p ?q))"
    and yuv: "snd (vaGetConfigAttributes_ret p ?q) 0 AND VA_RT_FORMAT_YUV420 \<noteq> 0"
    using assms
    by (simp_all add: context_create_attribs_def attribs_query_def Let_def case_prod_beta split: if_splits)
  have rc: "entrypoint (info c) = GST_VAAPI_ENTRYPOINT_SLICE_ENCODE \<longrightarrow> ?v1 AND ?rc = ?rc"
  proof (cases "?rc = VA_RC_NONE")
    case True
    then show ?thesis by simp
  next
    case False
    show ?thesis
    proof
      assume enc: "entrypoint (info c) = GST_VAAPI_ENTRYPOINT_SLICE_ENCODE"
      have "snd (vaGetConfigAttributes_ret p ?q) 1 AND ?rc = ?rc"
      proof (rule ccontr)
        assume "snd (vaGetConfigAttributes_ret p ?q) 1 AND ?rc \<noteq> ?rc"
        with enc ok yuv False have "\<not> fst (context_create_attribs p c ids tr)"
          by (simp add: context_create_attribs_def attribs_query_def Let_def case_prod_beta)
        with assms show False by simp
      qed
      with False show "?v1 AND ?rc = ?rc" by simp
    qed
  qed
  have eq: "context_create_attribs p c ids tr =
           context_create_va_config p c
             (if entrypoint (info c) = GST_VAAPI_ENTRYPOINT_SLICE_ENCODE
              then [\<lparr>attrib_type = VAConfigAttribRTFormat,
                      attrib_value = snd (vaGetConfigAttributes_ret p ?q) 0\<rparr>,
                    \<lparr>attrib_type = VAConfigAttribRateControl, attrib_value = ?rc\<rparr>]
              else [\<lparr>attrib_type = VAConfigAttribRTFormat,
                      attrib_value = snd (vaGetConfigAttributes_ret p ?q) 0\<rparr>])
             ids (?q @ [GST_VAAPI_DISPLAY_UNLOCK])"
  proof (cases "entrypoint (info c) = GST_VAAPI_ENTRYPOINT_SLICE_ENCODE")
    case True
    with rc have "?v1 AND ?rc = ?rc" by blast
    with True ok yuv show ?thesis
      by (cases "?rc = VA_RC_NONE")
         (simp_all add: context_create_attribs_def attribs_query_def Let_def case_prod_beta)
  next
    case False
    with ok yuv show ?thesis
      by (simp add: context_create_attribs_def attribs_query_def Let_def case_prod_beta)
  qed
  from ok yuv rc eq show ?thesis by blast
qed

lemma attribs_query_cong:
  "va_profile a = va_profile b \<Longrightarrow> va_entrypoint a = va_entrypoint b \<Longrightarrow> info a = info b \<Longrightarrow>
   attribs_query a tr = attribs_query b tr"
  by (simp add: attribs_query_def)

text \<open>
  The steps of \<open>context_create\<close> before line 179, where the function succeeds: the
  surface set was built if it was missing, the array of identifiers was allocated and
  filled, and profile and entry point are set.
\<close>

lemma context_create_reaches_attribs_steps:
  assumes "fst (context_create p c tr)"
  shows "\<exists>c1 tr1 arr ids.
           (surfaces c = None \<longrightarrow> fst (context_create_surfaces p c tr)) \<and>
           tr1 = (if surfaces c = None then snd (snd (context_create_surfaces p c tr)) else tr)
                   @ [G_array_sized_new (length arr)] \<and>
           g_array_sized_new_ret p tr1 \<and>
           filter is_va_call tr1 = filter is_va_call tr \<and>
           info c1 = info c \<and>
           profile (info c) \<noteq> 0 \<and> entrypoint (info c) \<noteq> 0 \<and>
           surfaces c1 = Some arr \<and> snapshot_surface_ids arr = Some ids \<and>
           context_create p c tr =
             (fst (context_create_attribs p c1 ids tr1),
              fst (snd (context_create_attribs p c1 ids tr1)),
              snd (snd (context_create_attribs p c1 ids tr1)) @ [G_array_free])"
proof -
  let ?s = "if surfaces c = None then context_create_surfaces p c tr else (True, c, tr)"
  let ?c0 = "fst (snd ?s)"
  let ?tr0 = "snd (snd ?s)"
  have tr0: "?tr0 = (if surfaces c = None then snd (snd (context_create_surfaces p c tr)) else tr)"
    by simp
  have va: "filter is_va_call ?tr0 = filter is_va_call tr"
    by (simp add: context_create_surfaces_va_calls)
  have kept: "info ?c0 = info c"
    by (simp add: context_create_surfaces_kept)
  from assms have s_ok: "fst ?s"
    by (simp add: context_create_def Let_def case_prod_beta split: if_splits)
  then have s_ok': "surfaces c = None \<longrightarrow> fst (context_create_surfaces p c tr)"
    by (cases "surfaces c") simp_all
  from assms s_ok obtain arr where arr: "surfaces ?c0 = Some arr"
    by (cases "surfaces ?c0") (simp_all add: context_create_def Let_def case_prod_beta)
  let ?tr2 = "?tr0 @ [G_array_sized_new (length arr)]"
  from assms s_ok arr have sized: "g_array_sized_new_ret p ?tr2"
    by (simp add: context_create_def Let_def case_prod_beta split: if_splits)
  from assms s_ok arr sized obtain ids where ids: "snapshot_surface_ids arr = Some ids"
    by (cases "snapshot_surface_ids arr") (simp_all add: context_create_def Let_def case_prod_beta)
  from assms s_ok arr sized ids have nz: "profile (info ?c0) \<noteq> 0" "entrypoint (info ?c0) \<noteq> 0"
    by (simp_all add: context_create_def Let_def case_prod_beta split: if_splits)
  let ?c1 = "?c0\<lparr>va_profile := gst_vaapi_profile_get_va_profile p (profile (info ?c0)),
                  va_entrypoint := gst_vaapi_entrypoint_get_va_entrypoint p (entrypoint (info ?c0))\<rparr>"
  have eq: "context_create p c tr =
             (fst (context_create_attribs p ?c1 ids ?tr2),
              fst (snd (context_create_attribs p ?c1 ids ?tr2)),
              snd (snd (context_create_attribs p ?c1 ids ?tr2)) @ [G_array_free])"
    using s_ok arr sized ids nz
    by (simp add: context_create_def Let_def case_prod_beta)
  have nz': "profile (info c) \<noteq> 0" "entrypoint (info c) \<noteq> 0"
    using nz unfolding kept by simp_all
  have info1: "info ?c1 = info c" using kept by simp
  have surf1: "surfaces ?c1 = Some arr" using arr by simp
  have va2: "filter is_va_call ?tr2 = filter is_va_call tr" using va by simp
  show ?thesis
    apply (rule exI[of _ ?c1], rule exI[of _ ?tr2], rule exI[of _ arr], rule exI[of _ ids])
    apply (intro conjI)
    apply (rule s_ok')
    apply (simp only: tr0)
    apply (rule sized)
    apply (rule va2)
    apply (rule info1)
    apply (rule nz')
    apply (rule nz')
    apply (rule surf1)
    apply (rule ids)
    apply (rule eq)
    done
qed

text \<open>
  Where \<open>context_create\<close> succeeds, each of its steps has succeeded, in the order of the
  source.
\<close>

lemma context_create_success_steps:
  assumes ok: "fst (context_create p c tr)"
  shows "\<exists>c' pre arr ids as.
         fst (snd (context_create p c tr)) = c' \<and>
         (surfaces c = None \<longrightarrow> fst (context_create_surfaces p c tr)) \<and>
         pre = (if surfaces c = None then snd (snd (context_create_surfaces p c tr)) else tr)
                 @ [G_array_sized_new (length arr)] \<and>
         g_array_sized_new_ret p pre \<and>
         filter is_va_call pre = filter is_va_call tr \<and>
         surfaces c' = Some arr \<and> snapshot_surface_ids arr = Some ids \<and>
         profile (info c') \<noteq> 0 \<and> entrypoint (info c') \<noteq> 0 \<and>
         snd (snd (context_create p c tr)) =
           attribs_query c' pre @
             [GST_VAAPI_DISPLAY_UNLOCK,
              GST_VAAPI_DISPLAY_LOCK, VaCreateConfig (va_profile c') (va_entrypoint c') as,
              GST_VAAPI_DISPLAY_UNLOCK,
              GST_VAAPI_DISPLAY_LOCK,
              VaCreateContext (va_config c') (width (info c')) (height (info c')) VA_PROGRESSIVE ids,
              GST_VAAPI_DISPLAY_UNLOCK,
              GST_DEBUG ''context 0x%08x'' (object_id c'),
              G_array_free] \<and>
         vaapi_check_status (fst (vaGetConfigAttributes_ret p (attribs_query c' pre))) \<and>
         snd (vaGetConfigAttributes_ret p (attribs_query c' pre)) 0 AND VA_RT_FORMAT_YUV420 \<noteq> 0 \<and>
         (entrypoint (info c') = GST_VAAPI_ENTRYPOINT_SLICE_ENCODE \<longrightarrow>
            (if from_GstVaapiRateControl p (rc_mode (info c')) = VA_RC_NONE then VA_RC_NONE
             else snd (vaGetConfigAttributes_ret p (attribs_query c' pre)) 1)
              AND from_GstVaapiRateControl p (rc_mode (info c')) =
            from_GstVaapiRateControl p (rc_mode (info c'))) \<and>
         as = (if entrypoint (info c') = GST_VAAPI_ENTRYPOINT_SLICE_ENCODE
               then [\<lparr>attrib_type = VAConfigAttribRTFormat,
                       attrib_value = snd (vaGetConfigAttributes_ret p (attribs_query c' pre)) 0\<rparr>,
                     \<lparr>attrib_type = VAConfigAttribRateControl,
                       attrib_value = from_GstVaapiRateControl p (rc_mode (info c'))\<rparr>]
               else [\<lparr>attrib_type = VAConfigAttribRTFormat,
                       attrib_value = snd (vaGetConfigAttributes_ret p (attribs_query c' pre)) 0\<rparr>]) \<and>
         vaapi_check_status (fst (vaCreateConfig_ret p
           (attribs_query c' pre @
              [GST_VAAPI_DISPLAY_UNLOCK,
               GST_VAAPI_DISPLAY_LOCK, VaCreateConfig (va_profile c') (va_entrypoint c') as]))) \<and>
         vaCreateContext_ret p
           (attribs_query c' pre @
              [GST_VAAPI_DISPLAY_UNLOCK,
               GST_VAAPI_DISPLAY_LOCK, VaCreateConfig (va_profile c') (va_entrypoint c') as,
               GST_VAAPI_DISPLAY_UNLOCK,
               GST_VAAPI_DISPLAY_LOCK,
               VaCreateContext (va_config c') (width (info c')) (height (info c')) VA_PROGRESSIVE ids]) =
           (VA_STATUS_SUCCESS, object_id c')"
proof -
  from context_create_reaches_attribs_steps [OF ok] obtain c1 tr1 arr ids where
    s_ok: "surfaces c = None \<longrightarrow> fst (context_create_surfaces p c tr)"
    and tr1: "tr1 = (if surfaces c = None then snd (snd (context_create_surfaces p c tr)) else tr)
                      @ [G_array_sized_new (length arr)]"
    and sized: "g_array_sized_new_ret p tr1"
    and va: "filter is_va_call tr1 = filter is_va_call tr"
    and info1: "info c1 = info c"
    and nz: "profile (info c) \<noteq> 0" "entrypoint (info c) \<noteq> 0"
    and arr: "surfaces c1 = Some arr" and ids: "snapshot_surface_ids arr = Some ids"
    and eq: "context_create p c tr =
             (fst (context_create_attribs p c1 ids tr1),
              fst (snd (context_create_attribs p c1 ids tr1)),
              snd (snd (context_create_attribs p c1 ids tr1)) @ [G_array_free])"
    by (elim exE conjE) (rule that; assumption)
  define a where "a = context_create_attribs p c1 ids tr1"
  define q where "q = attribs_query c1 tr1"
  define v where "v = snd (vaGetConfigAttributes_ret p q)"
  define rc where "rc = from_GstVaapiRateControl p (rc_mode (info c))"
  define as where "as =
     (if entrypoint (info c) = GST_VAAPI_ENTRYPOINT_SLICE_ENCODE
      then [\<lparr>attrib_type = VAConfigAttribRTFormat, attrib_value = v 0\<rparr>,
            \<lparr>attrib_type = VAConfigAttribRateControl, attrib_value = rc\<rparr>]
      else [\<lparr>attrib_type = VAConfigAttribRTFormat, attrib_value = v 0\<rparr>])"
  define c' where "c' = fst (snd a)"
  from ok eq have ok1: "fst (context_create_attribs p c1 ids tr1)" by simp
  note checks = context_create_attribs_checks [OF ok1, unfolded info1, folded q_def, folded v_def rc_def,
                  folded as_def]
  have q_ok: "vaapi_check_status (fst (vaGetConfigAttributes_ret p q))"
    and yuv: "v 0 AND VA_RT_FORMAT_YUV420 \<noteq> 0"
    and rcc: "entrypoint (info c) = GST_VAAPI_ENTRYPOINT_SLICE_ENCODE \<longrightarrow>
                (if rc = VA_RC_NONE then VA_RC_NONE else v 1) AND rc = rc"
    and eqa: "context_create_attribs p c1 ids tr1 =
                context_create_va_config p c1 as ids (q @ [GST_VAAPI_DISPLAY_UNLOCK])"
    using checks by blast+
  have a: "a = context_create_va_config p c1 as ids (q @ [GST_VAAPI_DISPLAY_UNLOCK])"
    unfolding a_def by (rule eqa)
  from ok1 have oka: "fst (context_create_va_config p c1 as ids (q @ [GST_VAAPI_DISPLAY_UNLOCK]))"
    unfolding eqa .
  note conf = context_create_va_config_success [OF oka, folded a, folded c'_def, unfolded info1]
  have kept: "info c' = info c" "surfaces c' = Some arr"
             "va_profile c' = va_profile c1" "va_entrypoint c' = va_entrypoint c1"
    unfolding c'_def a
    by (simp_all add: context_create_va_config_kept info1 arr)
  have q': "attribs_query c' tr1 = q"
    unfolding q_def by (rule attribs_query_cong) (simp_all add: kept info1)
  have res: "fst (snd (context_create p c tr)) = c'"
            "snd (snd (context_create p c tr)) = snd (snd a) @ [G_array_free]"
    unfolding c'_def a_def by (simp_all add: eq)
  show ?thesis
    apply (rule exI[of _ c'], rule exI[of _ tr1], rule exI[of _ arr], rule exI[of _ ids],
           rule exI[of _ as])
    unfolding q' kept res
    using s_ok tr1 sized va ids nz q_ok yuv rcc conf as_def
    by (simp add: v_def [symmetric] rc_def [symmetric] split: if_splits)
qed

text \<open>
  C9. Where \<open>context_create\<close> fails, the session's identifier is the one it had before.
  Where it succeeds, every step has succeeded, in the order of the source: the surface set
  was built if it was missing, the array of identifiers was allocated and every
  identifier of the surface array was read, profile and entry point are set, the query
  reported success, the format check passed, for a slice-encode entry point the
  rate-control check passed, \<open>vaCreateConfig\<close> was called with the attributes that these
  checks leave and reported success, \<open>vaCreateContext\<close> reported success, and the session's
  identifier is the one that \<open>vaCreateContext\<close>, the last of them, returned.
\<close>

theorem context_create_assigns_id_last:
  "(\<not> fst (context_create p c tr) \<longrightarrow>
      object_id (fst (snd (context_create p c tr))) = object_id c) \<and>
   (fst (context_create p c tr) \<longrightarrow>
      (\<exists>c' pre arr ids as.
         fst (snd (context_create p c tr)) = c' \<and>
         (surfaces c = None \<longrightarrow> fst (context_create_surfaces p c tr)) \<and>
         pre = (if surfaces c = None then snd (snd (context_create_surfaces p c tr)) else tr)
                 @ [G_array_sized_new (length arr)] \<and>
         g_array_sized_new_ret p pre \<and>
         filter is_va_call pre = filter is_va_call tr \<and>
         surfaces c' = Some arr \<and> snapshot_surface_ids arr = Some ids \<and>
         profile (info c') \<noteq> 0 \<and> entrypoint (info c') \<noteq> 0 \<and>
         snd (snd (context_create p c tr)) =
           attribs_query c' pre @
             [GST_VAAPI_DISPLAY_UNLOCK,
              GST_VAAPI_DISPLAY_LOCK, VaCreateConfig (va_profile c') (va_entrypoint c') as,
              GST_VAAPI_DISPLAY_UNLOCK,
              GST_VAAPI_DISPLAY_LOCK,
              VaCreateContext (va_config c') (width (info c')) (height (info c')) VA_PROGRESSIVE ids,
              GST_VAAPI_DISPLAY_UNLOCK,
              GST_DEBUG ''context 0x%08x'' (object_id c'),
              G_array_free] \<and>
         vaapi_check_status (fst (vaGetConfigAttributes_ret p (attribs_query c' pre))) \<and>
         snd (vaGetConfigAttributes_ret p (attribs_query c' pre)) 0 AND VA_RT_FORMAT_YUV420 \<noteq> 0 \<and>
         (entrypoint (info c') = GST_VAAPI_ENTRYPOINT_SLICE_ENCODE \<longrightarrow>
            (if from_GstVaapiRateControl p (rc_mode (info c')) = VA_RC_NONE then VA_RC_NONE
             else snd (vaGetConfigAttributes_ret p (attribs_query c' pre)) 1)
              AND from_GstVaapiRateControl p (rc_mode (info c')) =
            from_GstVaapiRateControl p (rc_mode (info c'))) \<and>
         as = (if entrypoint (info c') = GST_VAAPI_ENTRYPOINT_SLICE_ENCODE
               then [\<lparr>attrib_type = VAConfigAttribRTFormat,
                       attrib_value = snd (vaGetConfigAttributes_ret p (attribs_query c' pre)) 0\<rparr>,
                     \<lparr>attrib_type = VAConfigAttribRateControl,
                       attrib_value = from_GstVaapiRateControl p (rc_mode (info c'))\<rparr>]
               else [\<lparr>attrib_type = VAConfigAttribRTFormat,
                       attrib_value = snd (vaGetConfigAttributes_ret p (attribs_query c' pre)) 0\<rparr>]) \<and>
         vaapi_check_status (fst (vaCreateConfig_ret p
           (attribs_query c' pre @
              [GST_VAAPI_DISPLAY_UNLOCK,
               GST_VAAPI_DISPLAY_LOCK, VaCreateConfig (va_profile c') (va_entrypoint c') as]))) \<and>
         vaCreateContext_ret p
           (attribs_query c' pre @
              [GST_VAAPI_DISPLAY_UNLOCK,
               GST_VAAPI_DISPLAY_LOCK, VaCreateConfig (va_profile c') (va_entrypoint c') as,
               GST_VAAPI_DISPLAY_UNLOCK,
               GST_VAAPI_DISPLAY_LOCK,
               VaCreateContext (va_config c') (width (info c')) (height (info c')) VA_PROGRESSIVE ids]) =
           (VA_STATUS_SUCCESS, object_id c')))"
  using context_create_failure [of p c tr] context_create_success_steps [of p c tr] by blast

theorem context_create_assigns_id_last_witness:
  "\<not> fst (context_create no_yuv420_platform example_session []) \<and>
   object_id (fst (snd (context_create no_yuv420_platform example_session []))) = object_id example_session \<and>
   \<not> fst (context_create cbr_only_platform (example_session\<lparr>info := example_info\<lparr>rc_mode := 4\<rparr>\<rparr>) []) \<and>
   object_id (fst (snd (context_create cbr_only_platform
                          (example_session\<lparr>info := example_info\<lparr>rc_mode := 4\<rparr>\<rparr>) []))) = 0x2000000 \<and>
   fst (context_create example_platform (example_session\<lparr>object_id := VA_INVALID_ID\<rparr>) []) \<and>
   object_id (fst (snd (context_create example_platform (example_session\<lparr>object_id := VA_INVALID_ID\<rparr>) [])))
     = 0x2000001 \<and>
   snd (vaGetConfigAttributes_ret example_platform
          [G_array_sized_new 4, GST_VAAPI_DISPLAY_LOCK, VaGetConfigAttributes 6 6 [0, 5]]) 1 AND 2 = 2"
proof -
  let ?s = "example_session\<lparr>object_id := VA_INVALID_ID\<rparr>"
  let ?s4 = "example_session\<lparr>info := example_info\<lparr>rc_mode := 4\<rparr>\<rparr>"
  have f: "\<not> fst (context_create no_yuv420_platform example_session [])"
    by (simp add: context_create_def context_create_attribs_def Let_def case_prod_beta
          example_session_def example_info_def example_surface_def
          no_yuv420_platform_def example_platform_def
          vaapi_check_status_def VA_STATUS_SUCCESS_def VA_RT_FORMAT_YUV420_def)
  have f4: "\<not> fst (context_create cbr_only_platform ?s4 [])"
    by (simp add: context_create_def context_create_attribs_def Let_def case_prod_beta
          example_session_def example_info_def example_surface_def
          cbr_only_platform_def example_platform_def
          vaapi_check_status_def VA_STATUS_SUCCESS_def VA_RT_FORMAT_YUV420_def VA_RC_NONE_def
          GST_VAAPI_ENTRYPOINT_SLICE_ENCODE_def)
  have g: "context_create example_platform ?s [] =
             (True, example_session\<lparr>object_id := 0x2000001, va_config := 0x1000000\<rparr>,
              [G_array_sized_new 4,
               GST_VAAPI_DISPLAY_LOCK, VaGetConfigAttributes 6 6 [0, 5], GST_VAAPI_DISPLAY_UNLOCK,
               GST_VAAPI_DISPLAY_LOCK,
               VaCreateConfig 6 6 [\<lparr>attrib_type = 0, attrib_value = 1\<rparr>, \<lparr>attrib_type = 5, attrib_value = 2\<rparr>],
               GST_VAAPI_DISPLAY_UNLOCK,
               GST_VAAPI_DISPLAY_LOCK, VaCreateContext 0x1000000 16 16 1 [6, 9, 12, 15],
               GST_VAAPI_DISPLAY_UNLOCK,
               GST_DEBUG ''context 0x%08x'' 0x2000001, G_array_free])"
    by (simp add: context_create_def context_create_attribs_def context_create_va_config_def
          context_create_context_def Let_def case_prod_beta
          example_session_def example_info_def example_surface_def example_platform_def
          vaapi_check_status_def VA_STATUS_SUCCESS_def VA_RT_FORMAT_YUV420_def VA_RC_NONE_def
          VA_PROGRESSIVE_def GST_VAAPI_ENTRYPOINT_SLICE_ENCODE_def
          VAConfigAttribRTFormat_def VAConfigAttribRateControl_def)
  from context_create_assigns_id_last [of no_yuv420_platform example_session "[]"] f
  have 1: "object_id (fst (snd (context_create no_yuv420_platform example_session []))) =
          object_id example_session"
    by blast
  from context_create_assigns_id_last [of cbr_only_platform ?s4 "[]"] f4
  have "object_id (fst (snd (context_create cbr_only_platform ?s4 []))) = object_id ?s4"
    by blast
  then have 2: "object_id (fst (snd (context_create cbr_only_platform ?s4 []))) = 0x2000000"
    by (simp add: example_session_def)
  have ok: "fst (context_create example_platform ?s [])"
    using g by simp
  from context_create_assigns_id_last [of example_platform ?s "[]", THEN conjunct2, rule_format, OF ok]
  obtain c' pre arr where
    c': "fst (snd (context_create example_platform ?s [])) = c'"
    and pre: "pre = (if surfaces ?s = None then snd (snd (context_create_surfaces example_platform ?s []))
                     else []) @ [G_array_sized_new (length arr)]"
    and arr: "surfaces c' = Some arr"
    and rc: "entrypoint (info c') = GST_VAAPI_ENTRYPOINT_SLICE_ENCODE \<longrightarrow>
               (if from_GstVaapiRateControl example_platform (rc_mode (info c')) = VA_RC_NONE then VA_RC_NONE
                else snd (vaGetConfigAttributes_ret example_platform (attribs_query c' pre)) 1)
                 AND from_GstVaapiRateControl example_platform (rc_mode (info c')) =
               from_GstVaapiRateControl example_platform (rc_mode (info c'))"
    by (elim exE conjE) (rule that; assumption)
  have c'v: "c' = example_session\<lparr>object_id := 0x2000001, va_config := 0x1000000\<rparr>"
    using c' g by simp
  have arrv: "length arr = 4"
    using arr unfolding c'v by (auto simp add: example_session_def)
  have prev: "pre = [G_array_sized_new 4]"
    using pre unfolding arrv by (simp add: example_session_def)
  have enc: "entrypoint (info c') = GST_VAAPI_ENTRYPOINT_SLICE_ENCODE"
    "rc_mode (info c') = 2" "va_profile c' = 6" "va_entrypoint c' = 6"
    unfolding c'v
    by (simp_all add: example_session_def example_info_def GST_VAAPI_ENTRYPOINT_SLICE_ENCODE_def)
  have rcv: "from_GstVaapiRateControl example_platform 2 = 2"
    by (simp add: example_platform_def)
  from rc enc(1) have "(if from_GstVaapiRateControl example_platform (rc_mode (info c')) = VA_RC_NONE then VA_RC_NONE
                else snd (vaGetConfigAttributes_ret example_platform (attribs_query c' pre)) 1)
                 AND from_GstVaapiRateControl example_platform (rc_mode (info c')) =
               from_GstVaapiRateControl example_platform (rc_mode (info c'))"
    by blast
  then have 3: "snd (vaGetConfigAttributes_ret example_platform
          [G_array_sized_new 4, GST_VAAPI_DISPLAY_LOCK, VaGetConfigAttributes 6 6 [0, 5]]) 1 AND 2 = 2"
    unfolding enc rcv prev attribs_query_def
    by (simp add: VA_RC_NONE_def VAConfigAttribRTFormat_def VAConfigAttribRateControl_def
          GST_VAAPI_ENTRYPOINT_SLICE_ENCODE_def)
  from f 1 f4 2 g 3 show ?thesis by simp
qed

section \<open>Properties of the reset\<close>

lemma context_create_kept_info:
  "info (fst (snd (context_create p c tr))) = info c"
  by (simp add: context_create_def Let_def case_prod_beta context_create_surfaces_kept
        context_create_attribs_kept split: option.splits)

lemma reset_rebuild_info:
  "info (fst (snd (gst_vaapi_context_reset_rebuild p c sc cc tr))) = info c"
  by (cases sc; cases cc)
     (simp_all add: gst_vaapi_context_reset_rebuild_def case_prod_beta
        context_destroy_fields context_destroy_surfaces_fields context_create_surfaces_kept
        context_create_kept_info)

lemma reset_info_fields:
  "width (fst (gst_vaapi_context_reset_info cip new_cip)) = width new_cip"
  "height (fst (gst_vaapi_context_reset_info cip new_cip)) = height new_cip"
  "profile (fst (gst_vaapi_context_reset_info cip new_cip)) = profile new_cip"
  "entrypoint (fst (gst_vaapi_context_reset_info cip new_cip)) = entrypoint new_cip"
  "rc_mode (fst (gst_vaapi_context_reset_info cip new_cip)) =
     (if entrypoint new_cip = GST_VAAPI_ENTRYPOINT_SLICE_ENCODE then rc_mode new_cip else rc_mode cip)"
  "ref_frames (fst (gst_vaapi_context_reset_info cip new_cip)) = ref_frames cip"
  by (auto simp add: gst_vaapi_context_reset_info_def Let_def)

lemma reset_info_same: "gst_vaapi_context_reset_info cip cip = (cip, False, False)"
  by (simp add: gst_vaapi_context_reset_info_def)

text \<open>
  C6. A reset to the descriptor the session already has returns success and leaves the
  session and the trace as they were: nothing is called, so nothing is destroyed or
  created, and the identifier is the same.
\<close>

theorem reset_same_descriptor:
  "gst_vaapi_context_reset p c (info c) tr = (True, c, tr)"
  by (simp add: gst_vaapi_context_reset_def reset_info_same gst_vaapi_context_reset_rebuild_def)

theorem reset_same_descriptor_witness:
  "gst_vaapi_context_reset example_platform example_session example_info [] = (True, example_session, [])"
  using reset_same_descriptor [of example_platform example_session "[]"]
  by (simp add: example_session_def)

text \<open>
  C2, as claimed, fails: a reset does not store every field of the new descriptor. With a
  decode entry point the rate-control mode of the new descriptor is ignored (the
  \<open>switch\<close> at line 317 copies it for slice-encode only).
\<close>

theorem reset_descriptor_counterexample:
  "rc_mode (info (fst (snd (gst_vaapi_context_reset example_platform
      (example_session\<lparr>info := decode_info\<rparr>) (decode_info\<lparr>rc_mode := 2\<rparr>) []))))
   \<noteq> rc_mode (decode_info\<lparr>rc_mode := 2\<rparr>)"
  by (simp add: gst_vaapi_context_reset_def gst_vaapi_context_reset_info_def
        gst_vaapi_context_reset_rebuild_def Let_def decode_info_def GST_VAAPI_ENTRYPOINT_SLICE_ENCODE_def)

text \<open>
  C2, amended. The teardown and the rebuild of a reset run on the session that already
  stores the updated descriptor, and they never write to it. So whatever the platform
  answers, and whether or not the rebuild succeeds, after a reset the stored width,
  height, profile and entry point are those of the new descriptor, and the stored
  rate-control mode is the new one when the new entry point is slice-encode and the old
  one otherwise.
\<close>

theorem reset_updates_descriptor_first:
  "gst_vaapi_context_reset p c new_cip tr =
     gst_vaapi_context_reset_rebuild p
       (c\<lparr>info := fst (gst_vaapi_context_reset_info (info c) new_cip)\<rparr>)
       (fst (snd (gst_vaapi_context_reset_info (info c) new_cip)))
       (snd (snd (gst_vaapi_context_reset_info (info c) new_cip))) tr \<and>
   width (info (fst (snd (gst_vaapi_context_reset p c new_cip tr)))) = width new_cip \<and>
   height (info (fst (snd (gst_vaapi_context_reset p c new_cip tr)))) = height new_cip \<and>
   profile (info (fst (snd (gst_vaapi_context_reset p c new_cip tr)))) = profile new_cip \<and>
   entrypoint (info (fst (snd (gst_vaapi_context_reset p c new_cip tr)))) = entrypoint new_cip \<and>
   rc_mode (info (fst (snd (gst_vaapi_context_reset p c new_cip tr)))) =
     (if entrypoint new_cip = GST_VAAPI_ENTRYPOINT_SLICE_ENCODE then rc_mode new_cip
      else rc_mode (info c))"
  by (simp add: gst_vaapi_context_reset_def case_prod_beta reset_rebuild_info reset_info_fields)

theorem reset_updates_descriptor_first_witness:
  "\<not> fst (gst_vaapi_context_reset failing_overlay_platform example_session
            (example_info\<lparr>width := 32, height := 24\<rparr>) []) \<and>
   width (info (fst (snd (gst_vaapi_context_reset failing_overlay_platform example_session
            (example_info\<lparr>width := 32, height := 24\<rparr>) [])))) = 32 \<and>
   height (info (fst (snd (gst_vaapi_context_reset failing_overlay_platform example_session
            (example_info\<lparr>width := 32, height := 24\<rparr>) [])))) = 24"
proof -
  have "\<not> fst (gst_vaapi_context_reset failing_overlay_platform example_session
            (example_info\<lparr>width := 32, height := 24\<rparr>) [])"
    by (simp add: gst_vaapi_context_reset_def gst_vaapi_context_reset_info_def
          gst_vaapi_context_reset_rebuild_def Let_def case_prod_beta
          context_create_surfaces_def gst_vaapi_context_overlay_reset_def
          example_session_def example_info_def failing_overlay_platform_def
          GST_VAAPI_ENTRYPOINT_SLICE_ENCODE_def)
  with reset_updates_descriptor_first [of failing_overlay_platform example_session
         "example_info\<lparr>width := 32, height := 24\<rparr>" "[]", THEN conjunct2]
  show ?thesis by simp
qed

section \<open>Properties of the accessors\<close>

text \<open>
  C10. On a NULL session each accessor returns at its guard: \<open>gst_vaapi_context_get_id\<close>
  the invalid sentinel, \<open>gst_vaapi_context_get_surface_proxy\<close> NULL,
  \<open>gst_vaapi_context_get_surface_count\<close> 0 and \<open>gst_vaapi_context_get_attribute\<close>
  failure, with the output location untouched. The only event is the warning of the
  guard: no hardware call is made.
\<close>

theorem accessors_on_NULL:
  "gst_vaapi_context_get_id None tr =
     (VA_INVALID_ID, tr @ [G_return_if_fail_warning ''context != NULL'']) \<and>
   gst_vaapi_context_get_surface_proxy None tr =
     (None, None, tr @ [G_return_if_fail_warning ''context != NULL'']) \<and>
   gst_vaapi_context_get_surface_count None tr =
     (0, tr @ [G_return_if_fail_warning ''context != NULL'']) \<and>
   gst_vaapi_context_get_attribute p None type out_value_ptr tr =
     (False, out_value_ptr, tr @ [G_return_if_fail_warning ''context != NULL'']) \<and>
   filter is_va_call (tr @ [G_return_if_fail_warning ''context != NULL'']) = filter is_va_call tr"
  by (simp add: gst_vaapi_context_get_id_def gst_vaapi_context_get_surface_proxy_def
        gst_vaapi_context_get_surface_count_def gst_vaapi_context_get_attribute_def)

section \<open>Resets that change one thing\<close>

lemma context_create_surfaces_teardown_steps:
  "filter is_teardown_step (snd (snd (context_create_surfaces p c tr))) =
     filter is_teardown_step tr @ [Gst_vaapi_context_overlay_reset]"
  using context_create_surfaces_filter [where P = is_teardown_step and p = p and c = c and tr = tr]
  by simp

lemma context_create_context_teardown_steps:
  "filter is_teardown_step (snd (snd (context_create_context p c ids tr))) = filter is_teardown_step tr"
  by (simp add: context_create_context_def Let_def case_prod_beta)

lemma context_create_va_config_teardown_steps:
  "filter is_teardown_step (snd (snd (context_create_va_config p c as ids tr))) = filter is_teardown_step tr"
  by (simp add: context_create_va_config_def Let_def case_prod_beta context_create_context_teardown_steps)

lemma context_create_attribs_teardown_steps:
  "filter is_teardown_step (snd (snd (context_create_attribs p c ids tr))) = filter is_teardown_step tr"
  by (simp add: context_create_attribs_def Let_def case_prod_beta context_create_va_config_teardown_steps)

text \<open>On a session that has a surface array, \<open>context_create\<close> leaves array and pool alone.\<close>

lemma context_create_keeps_surface_set:
  assumes "surfaces c = Some arr"
  shows "surfaces (fst (snd (context_create p c tr))) = Some arr"
    and "surfaces_pool (fst (snd (context_create p c tr))) = surfaces_pool c"
    and "filter is_teardown_step (snd (snd (context_create p c tr))) = filter is_teardown_step tr"
  using assms
  by (simp_all add: context_create_def Let_def case_prod_beta context_create_attribs_kept
        context_create_attribs_teardown_steps split: option.splits)

text \<open>
  C3. A reset that changes the width or the height and leaves profile, entry point and
  rate-control mode as stored does exactly this: it destroys the surface set and builds
  one for the new size. Identifier and configuration handle are those from before the
  call and no hardware call is made, so the context is neither destroyed nor created.
  Every surface of the old set is released, between two overlay resets; where the reset
  succeeds, the new set holds \<open>ref_frames + 4\<close> surfaces, all free in the new pool.
\<close>

theorem reset_size_only:
  assumes "profile new_cip = profile (info c)"
    and "entrypoint new_cip = entrypoint (info c)"
    and "rc_mode new_cip = rc_mode (info c)"
    and "width new_cip \<noteq> width (info c) \<or> height new_cip \<noteq> height (info c)"
  shows "gst_vaapi_context_reset p c new_cip tr =
           context_create_surfaces p
             (fst (context_destroy_surfaces p
                     (c\<lparr>info := (info c)\<lparr>width := width new_cip, height := height new_cip\<rparr>\<rparr>) tr))
             (snd (context_destroy_surfaces p
                     (c\<lparr>info := (info c)\<lparr>width := width new_cip, height := height new_cip\<rparr>\<rparr>) tr)) \<and>
         object_id (fst (snd (gst_vaapi_context_reset p c new_cip tr))) = object_id c \<and>
         va_config (fst (snd (gst_vaapi_context_reset p c new_cip tr))) = va_config c \<and>
         filter is_va_call (snd (snd (gst_vaapi_context_reset p c new_cip tr))) = filter is_va_call tr \<and>
         filter is_teardown_step (snd (snd (gst_vaapi_context_reset p c new_cip tr))) =
           filter is_teardown_step tr @ [Gst_vaapi_context_overlay_reset]
           @ map Gst_vaapi_object_unref (case surfaces c of None \<Rightarrow> [] | Some arr \<Rightarrow> arr)
           @ [Gst_vaapi_context_overlay_reset] \<and>
         (fst (gst_vaapi_context_reset p c new_cip tr) \<longrightarrow>
            (\<exists>new. surfaces (fst (snd (gst_vaapi_context_reset p c new_cip tr))) = Some (map Some new) \<and>
                   surfaces_pool (fst (snd (gst_vaapi_context_reset p c new_cip tr))) =
                     Some \<lparr>capacity = ref_frames (info c) + 4, free_objects = new\<rparr> \<and>
                   length new = unat (ref_frames (info c) + 4)))"
proof -
  let ?c1 = "c\<lparr>info := (info c)\<lparr>width := width new_cip, height := height new_cip\<rparr>\<rparr>"
  let ?d = "context_destroy_surfaces p ?c1 tr"
  have upd: "gst_vaapi_context_reset_info (info c) new_cip =
               ((info c)\<lparr>width := width new_cip, height := height new_cip\<rparr>, True, False)"
    using assms by (auto simp add: gst_vaapi_context_reset_info_def Let_def)
  have eq: "gst_vaapi_context_reset p c new_cip tr = context_create_surfaces p (fst ?d) (snd ?d)"
    by (simp add: gst_vaapi_context_reset_def upd gst_vaapi_context_reset_rebuild_def case_prod_beta
          prod_eq_iff)
  have fresh: "fst (context_create_surfaces p (fst ?d) (snd ?d)) \<longrightarrow>
            (\<exists>new. surfaces (fst (snd (context_create_surfaces p (fst ?d) (snd ?d)))) = Some (map Some new) \<and>
                   surfaces_pool (fst (snd (context_create_surfaces p (fst ?d) (snd ?d)))) =
                     Some \<lparr>capacity = ref_frames (info c) + 4, free_objects = new\<rparr> \<and>
                   length new = unat (ref_frames (info c) + 4))"
    using context_create_surfaces_fresh [of "fst ?d" p "snd ?d"]
    by (simp add: context_destroy_surfaces_fields SCRATCH_SURFACES_COUNT_def)
  show ?thesis
    unfolding eq
    using fresh
    by (simp add: context_create_surfaces_kept context_destroy_surfaces_fields
          context_create_surfaces_va_calls context_destroy_surfaces_va_calls
          context_create_surfaces_teardown_steps context_destroy_surfaces_teardown_steps)
qed

theorem reset_size_only_witness:
  "fst (gst_vaapi_context_reset example_platform example_session (example_info\<lparr>width := 32\<rparr>) []) \<and>
   object_id (fst (snd (gst_vaapi_context_reset example_platform example_session
                          (example_info\<lparr>width := 32\<rparr>) []))) = object_id example_session \<and>
   va_config (fst (snd (gst_vaapi_context_reset example_platform example_session
                          (example_info\<lparr>width := 32\<rparr>) []))) = va_config example_session \<and>
   filter is_va_call (snd (snd (gst_vaapi_context_reset example_platform example_session
                                  (example_info\<lparr>width := 32\<rparr>) []))) = [] \<and>
   filter is_teardown_step (snd (snd (gst_vaapi_context_reset example_platform example_session
                                  (example_info\<lparr>width := 32\<rparr>) []))) =
     [Gst_vaapi_context_overlay_reset,
      Gst_vaapi_object_unref (Some (example_surface 6)), Gst_vaapi_object_unref (Some (example_surface 9)),
      Gst_vaapi_object_unref (Some (example_surface 12)), Gst_vaapi_object_unref (Some (example_surface 15)),
      Gst_vaapi_context_overlay_reset] \<and>
   surfaces (fst (snd (gst_vaapi_context_reset example_platform example_session
                         (example_info\<lparr>width := 32\<rparr>) []))) \<noteq> surfaces example_session"
proof -
  have h: "profile (example_info\<lparr>width := 32\<rparr>) = profile (info example_session)"
          "entrypoint (example_info\<lparr>width := 32\<rparr>) = entrypoint (info example_session)"
          "rc_mode (example_info\<lparr>width := 32\<rparr>) = rc_mode (info example_session)"
          "width (example_info\<lparr>width := 32\<rparr>) \<noteq> width (info example_session) \<or>
           height (example_info\<lparr>width := 32\<rparr>) \<noteq> height (info example_session)"
    by (simp_all add: example_session_def example_info_def)
  have ok: "fst (gst_vaapi_context_reset example_platform example_session (example_info\<lparr>width := 32\<rparr>) [])"
    and ne: "surfaces (fst (snd (gst_vaapi_context_reset example_platform example_session
                         (example_info\<lparr>width := 32\<rparr>) []))) \<noteq> surfaces example_session"
    by (simp_all add: model_defs example_defs)
  note kept = reset_size_only [OF h, of example_platform "[]", THEN conjunct2]
  have va: "filter is_va_call (snd (snd (gst_vaapi_context_reset example_platform example_session
                                  (example_info\<lparr>width := 32\<rparr>) []))) = []"
    using kept [THEN conjunct2, THEN conjunct2, THEN conjunct1] by simp
  have td: "filter is_teardown_step (snd (snd (gst_vaapi_context_reset example_platform example_session
                                  (example_info\<lparr>width := 32\<rparr>) []))) =
     [Gst_vaapi_context_overlay_reset,
      Gst_vaapi_object_unref (Some (example_surface 6)), Gst_vaapi_object_unref (Some (example_surface 9)),
      Gst_vaapi_object_unref (Some (example_surface 12)), Gst_vaapi_object_unref (Some (example_surface 15)),
      Gst_vaapi_context_overlay_reset]"
    using kept [THEN conjunct2, THEN conjunct2, THEN conjunct2, THEN conjunct1]
    by (simp add: example_session_def)
  from ok kept [THEN conjunct1] kept [THEN conjunct2, THEN conjunct1] va td ne
  show ?thesis by blast
qed

text \<open>
  C7, as claimed, fails on a session that has no surface set (the torn session, which a
  failed change of size leaves): \<open>context_create\<close> builds the missing set before it
  creates the configuration (line 156), so a reset that changes the rate-control mode
  only does not leave the surface set and the pool as they were.
\<close>

theorem reset_rate_control_counterexample:
  "entrypoint (info torn_session) = GST_VAAPI_ENTRYPOINT_SLICE_ENCODE \<and>
   entrypoint ((info torn_session)\<lparr>rc_mode := 4\<rparr>) = GST_VAAPI_ENTRYPOINT_SLICE_ENCODE \<and>
   surfaces torn_session = None \<and> surfaces_pool torn_session = None \<and>
   fst (gst_vaapi_context_reset example_platform torn_session ((info torn_session)\<lparr>rc_mode := 4\<rparr>) []) \<and>
   surfaces (fst (snd (gst_vaapi_context_reset example_platform torn_session
                         ((info torn_session)\<lparr>rc_mode := 4\<rparr>) []))) \<noteq> surfaces torn_session \<and>
   surfaces_pool (fst (snd (gst_vaapi_context_reset example_platform torn_session
                         ((info torn_session)\<lparr>rc_mode := 4\<rparr>) []))) \<noteq> surfaces_pool torn_session"
  by (simp add: model_defs example_defs)

text \<open>
  C7, amended. On a session with a slice-encode entry point that has a surface array, a
  reset that changes the rate-control mode only destroys context and configuration and
  runs \<open>context_create\<close>. The array and the pool are the same as before, and no surface
  is released. The teardown steps are the two destroy calls (for the handles that were
  valid). Where the reset succeeds, the hardware calls that follow them are the query
  for format and rate control, \<open>vaCreateConfig\<close> and \<open>vaCreateContext\<close>, the last over
  the identifiers of the same surfaces.
\<close>

theorem reset_rate_control_only:
  assumes "entrypoint (info c) = GST_VAAPI_ENTRYPOINT_SLICE_ENCODE"
    and "entrypoint new_cip = entrypoint (info c)"
    and "profile new_cip = profile (info c)"
    and "width new_cip = width (info c)"
    and "height new_cip = height (info c)"
    and "rc_mode new_cip \<noteq> rc_mode (info c)"
    and "surfaces c = Some arr"
  shows "gst_vaapi_context_reset p c new_cip tr =
           context_create p
             (fst (context_destroy p (c\<lparr>info := (info c)\<lparr>rc_mode := rc_mode new_cip\<rparr>\<rparr>) tr))
             (snd (context_destroy p (c\<lparr>info := (info c)\<lparr>rc_mode := rc_mode new_cip\<rparr>\<rparr>) tr)) \<and>
         surfaces (fst (snd (gst_vaapi_context_reset p c new_cip tr))) = Some arr \<and>
         surfaces_pool (fst (snd (gst_vaapi_context_reset p c new_cip tr))) = surfaces_pool c \<and>
         filter is_teardown_step (snd (snd (gst_vaapi_context_reset p c new_cip tr))) =
           filter is_teardown_step tr
           @ (if object_id c \<noteq> VA_INVALID_ID then [VaDestroyContext (object_id c)] else [])
           @ (if va_config c \<noteq> VA_INVALID_ID then [VaDestroyConfig (va_config c)] else []) \<and>
         (fst (gst_vaapi_context_reset p c new_cip tr) \<longrightarrow>
            (\<exists>c' as ids.
               fst (snd (gst_vaapi_context_reset p c new_cip tr)) = c' \<and>
               snapshot_surface_ids arr = Some ids \<and>
               filter is_va_call (snd (snd (gst_vaapi_context_reset p c new_cip tr))) =
                 filter is_va_call tr
                 @ (if object_id c \<noteq> VA_INVALID_ID then [VaDestroyContext (object_id c)] else [])
                 @ (if va_config c \<noteq> VA_INVALID_ID then [VaDestroyConfig (va_config c)] else [])
                 @ [VaGetConfigAttributes (va_profile c') (va_entrypoint c')
                      [VAConfigAttribRTFormat, VAConfigAttribRateControl],
                    VaCreateConfig (va_profile c') (va_entrypoint c') as,
                    VaCreateContext (va_config c') (width (info c)) (height (info c)) VA_PROGRESSIVE ids]))"
proof -
  let ?c1 = "c\<lparr>info := (info c)\<lparr>rc_mode := rc_mode new_cip\<rparr>\<rparr>"
  let ?d = "context_destroy p ?c1 tr"
  let ?r = "context_create p (fst ?d) (snd ?d)"
  have upd: "gst_vaapi_context_reset_info (info c) new_cip =
               ((info c)\<lparr>rc_mode := rc_mode new_cip\<rparr>, False, True)"
    using assms by (auto simp add: gst_vaapi_context_reset_info_def Let_def)
  have eq: "gst_vaapi_context_reset p c new_cip tr = ?r"
    by (simp add: gst_vaapi_context_reset_def upd gst_vaapi_context_reset_rebuild_def case_prod_beta)
  have arr: "surfaces (fst ?d) = Some arr"
    using assms(7) by (simp add: context_destroy_fields)
  note keep = context_create_keeps_surface_set [OF arr, of p "snd ?d"]
  have success: "fst ?r \<longrightarrow>
            (\<exists>c' as ids.
               fst (snd ?r) = c' \<and>
               snapshot_surface_ids arr = Some ids \<and>
               filter is_va_call (snd (snd ?r)) =
                 filter is_va_call tr
                 @ (if object_id c \<noteq> VA_INVALID_ID then [VaDestroyContext (object_id c)] else [])
                 @ (if va_config c \<noteq> VA_INVALID_ID then [VaDestroyConfig (va_config c)] else [])
                 @ [VaGetConfigAttributes (va_profile c') (va_entrypoint c')
                      [VAConfigAttribRTFormat, VAConfigAttribRateControl],
                    VaCreateConfig (va_profile c') (va_entrypoint c') as,
                    VaCreateContext (va_config c') (width (info c)) (height (info c)) VA_PROGRESSIVE ids])"
  proof
    assume ok: "fst ?r"
    from context_create_success [OF ok] obtain pre arr' ids as where
      pre: "filter is_va_call pre = filter is_va_call (snd ?d)"
      and arr': "surfaces (fst (snd ?r)) = Some arr'"
      and ids: "snapshot_surface_ids arr' = Some ids"
      and tr': "snd (snd ?r) =
           attribs_query (fst (snd ?r)) pre @
             [GST_VAAPI_DISPLAY_UNLOCK,
              GST_VAAPI_DISPLAY_LOCK, VaCreateConfig (va_profile (fst (snd ?r))) (va_entrypoint (fst (snd ?r))) as,
              GST_VAAPI_DISPLAY_UNLOCK,
              GST_VAAPI_DISPLAY_LOCK,
              VaCreateContext (va_config (fst (snd ?r))) (width (info (fst (snd ?r))))
                (height (info (fst (snd ?r)))) VA_PROGRESSIVE ids,
              GST_VAAPI_DISPLAY_UNLOCK,
              GST_DEBUG ''context 0x%08x'' (object_id (fst (snd ?r))),
              G_array_free]"
      by blast
    from arr' keep(1) have "arr' = arr" by simp
    have inf: "info (fst (snd ?r)) = (info c)\<lparr>rc_mode := rc_mode new_cip\<rparr>"
      by (simp add: context_create_kept_info context_destroy_fields)
    show "\<exists>c' as ids.
               fst (snd ?r) = c' \<and>
               snapshot_surface_ids arr = Some ids \<and>
               filter is_va_call (snd (snd ?r)) =
                 filter is_va_call tr
                 @ (if object_id c \<noteq> VA_INVALID_ID then [VaDestroyContext (object_id c)] else [])
                 @ (if va_config c \<noteq> VA_INVALID_ID then [VaDestroyConfig (va_config c)] else [])
                 @ [VaGetConfigAttributes (va_profile c') (va_entrypoint c')
                      [VAConfigAttribRTFormat, VAConfigAttribRateControl],
                    VaCreateConfig (va_profile c') (va_entrypoint c') as,
                    VaCreateContext (va_config c') (width (info c)) (height (info c)) VA_PROGRESSIVE ids]"
      apply (rule exI[of _ "fst (snd ?r)"], rule exI[of _ as], rule exI[of _ ids])
      using ids \<open>arr' = arr\<close> pre assms(1)
      by (simp add: tr' attribs_query_def inf context_destroy_va_calls)
  qed
  show ?thesis
    unfolding eq
    using keep success
    by (simp add: context_destroy_fields context_destroy_teardown_steps)
qed

theorem reset_rate_control_only_witness:
  "fst (gst_vaapi_context_reset example_platform example_session (example_info\<lparr>rc_mode := 4\<rparr>) []) \<and>
   surfaces (fst (snd (gst_vaapi_context_reset example_platform example_session
                         (example_info\<lparr>rc_mode := 4\<rparr>) []))) = surfaces example_session \<and>
   surfaces_pool (fst (snd (gst_vaapi_context_reset example_platform example_session
                         (example_info\<lparr>rc_mode := 4\<rparr>) []))) = surfaces_pool example_session \<and>
   filter is_teardown_step (snd (snd (gst_vaapi_context_reset example_platform example_session
                                        (example_info\<lparr>rc_mode := 4\<rparr>) []))) =
     [VaDestroyContext 0x2000000, VaDestroyConfig 0x1000001] \<and>
   filter is_va_call (snd (snd (gst_vaapi_context_reset example_platform example_session
                                        (example_info\<lparr>rc_mode := 4\<rparr>) []))) =
     [VaDestroyContext 0x2000000, VaDestroyConfig 0x1000001,
      VaGetConfigAttributes 6 6 [0, 5],
      VaCreateConfig 6 6 [\<lparr>attrib_type = 0, attrib_value = 1\<rparr>, \<lparr>attrib_type = 5, attrib_value = 4\<rparr>],
      VaCreateContext 0x1000001 16 16 1 [6, 9, 12, 15]]"
proof -
  have h: "entrypoint (info example_session) = GST_VAAPI_ENTRYPOINT_SLICE_ENCODE"
          "entrypoint (example_info\<lparr>rc_mode := 4\<rparr>) = entrypoint (info example_session)"
          "profile (example_info\<lparr>rc_mode := 4\<rparr>) = profile (info example_session)"
          "width (example_info\<lparr>rc_mode := 4\<rparr>) = width (info example_session)"
          "height (example_info\<lparr>rc_mode := 4\<rparr>) = height (info example_session)"
          "rc_mode (example_info\<lparr>rc_mode := 4\<rparr>) \<noteq> rc_mode (info example_session)"
          "surfaces example_session =
             Some [Some (example_surface 6), Some (example_surface 9),
                   Some (example_surface 12), Some (example_surface 15)]"
    by (simp_all add: example_session_def example_info_def GST_VAAPI_ENTRYPOINT_SLICE_ENCODE_def)
  have ok: "fst (gst_vaapi_context_reset example_platform example_session (example_info\<lparr>rc_mode := 4\<rparr>) [])"
    and va: "filter is_va_call (snd (snd (gst_vaapi_context_reset example_platform example_session
                                        (example_info\<lparr>rc_mode := 4\<rparr>) []))) =
     [VaDestroyContext 0x2000000, VaDestroyConfig 0x1000001,
      VaGetConfigAttributes 6 6 [0, 5],
      VaCreateConfig 6 6 [\<lparr>attrib_type = 0, attrib_value = 1\<rparr>, \<lparr>attrib_type = 5, attrib_value = 4\<rparr>],
      VaCreateContext 0x1000001 16 16 1 [6, 9, 12, 15]]"
    by (simp_all add: model_defs example_defs)
  have ids: "object_id example_session = 0x2000000" "va_config example_session = 0x1000001"
    by (simp_all add: example_session_def)
  note kept = reset_rate_control_only [OF h, of example_platform "[]", THEN conjunct2]
  have s: "surfaces (fst (snd (gst_vaapi_context_reset example_platform example_session
                         (example_info\<lparr>rc_mode := 4\<rparr>) []))) = surfaces example_session"
    using kept [THEN conjunct1] h(7) by simp
  have p: "surfaces_pool (fst (snd (gst_vaapi_context_reset example_platform example_session
                         (example_info\<lparr>rc_mode := 4\<rparr>) []))) = surfaces_pool example_session"
    by (rule kept [THEN conjunct2, THEN conjunct1])
  have td: "filter is_teardown_step (snd (snd (gst_vaapi_context_reset example_platform example_session
                                        (example_info\<lparr>rc_mode := 4\<rparr>) []))) =
              [VaDestroyContext 0x2000000, VaDestroyConfig 0x1000001]"
    using kept [THEN conjunct2, THEN conjunct2, THEN conjunct1] by (simp add: ids VA_INVALID_ID_def)
  from ok s p td va show ?thesis by blast
qed

section \<open>Creation of a session\<close>

lemma context_create_pool:
  "surfaces_pool (fst (snd (context_create p c tr))) =
     surfaces_pool (fst (snd (if surfaces c = None then context_create_surfaces p c tr else (True, c, tr))))"
  by (simp add: context_create_def Let_def case_prod_beta context_create_attribs_kept split: option.splits)

lemma context_create_surfaces_ok:
  "fst (context_create p c tr) \<Longrightarrow> surfaces c = None \<Longrightarrow> fst (context_create_surfaces p c tr)"
  by (simp add: context_create_def Let_def case_prod_beta split: if_splits)

lemma finalize_ends:
  "snd (gst_vaapi_context_finalize p c tr) =
     snd (context_destroy_surfaces p (fst (context_destroy p c tr)) (snd (context_destroy p c tr)))
     @ [Gst_vaapi_context_overlay_finalize]"
  by (simp add: gst_vaapi_context_finalize_def case_prod_beta)

text \<open>
  C1, as claimed, fails in two ways. The function stores the identifier that
  \<open>vaCreateContext\<close> wrote when it reported success and never compares it with
  \<open>VA_INVALID_ID\<close> (line 222): with a driver that writes the sentinel, the session
  returned has the sentinel as its identifier. And the number of surfaces is computed in
  \<open>guint\<close> (line 110): for 4294967293 reference frames it is 1, not 4294967297.
\<close>

theorem context_new_counterexample:
  "profile example_info \<noteq> 0 \<and> entrypoint example_info \<noteq> 0 \<and>
   0 < width example_info \<and> 0 < height example_info \<and>
   fst (gst_vaapi_context_new invalid_id_platform example_info []) =
     Some (example_session\<lparr>object_id := VA_INVALID_ID\<rparr>) \<and>
   fst (gst_vaapi_context_get_id (Some (example_session\<lparr>object_id := VA_INVALID_ID\<rparr>)) []) = VA_INVALID_ID \<and>
   profile wrapping_info \<noteq> 0 \<and> entrypoint wrapping_info \<noteq> 0 \<and>
   0 < width wrapping_info \<and> 0 < height wrapping_info \<and>
   (\<exists>context. fst (gst_vaapi_context_new example_platform wrapping_info []) = Some context \<and>
      unat (fst (gst_vaapi_context_get_surface_count (Some context) [])) = 1) \<and>
   unat (ref_frames wrapping_info) + 4 = 4294967297"
  by (simp add: model_defs example_defs)

text \<open>
  C1, amended. For a descriptor with profile and entry point set and positive width and
  height, \<open>gst_vaapi_context_new\<close> either returns a session or returns NULL. The count
  of free surfaces of a session returned is \<open>ref_frames + 4\<close> modulo \<open>2 ^ 32\<close>, and its
  identifier is the one that the call of \<open>vaCreateContext\<close> closing the construction
  returned together with the status of success. Where NULL is returned, either the
  object could not be allocated, or the session that was being built has been finalized.
\<close>

theorem context_new_all_or_nothing:
  assumes "profile cip \<noteq> 0" and "entrypoint cip \<noteq> 0"
    and "0 < width cip" and "0 < height cip"
  shows "(\<exists>context h ids.
            fst (gst_vaapi_context_new p cip tr) = Some context \<and>
            unat (fst (gst_vaapi_context_get_surface_count (Some context) tr')) =
              (unat (ref_frames cip) + 4) mod 2 ^ 32 \<and>
            snd (gst_vaapi_context_new p cip tr) =
              h @ [VaCreateContext (va_config context) (width cip) (height cip) VA_PROGRESSIVE ids,
                   GST_VAAPI_DISPLAY_UNLOCK,
                   GST_DEBUG ''context 0x%08x'' (fst (gst_vaapi_context_get_id (Some context) tr')),
                   G_array_free] \<and>
            vaCreateContext_ret p
              (h @ [VaCreateContext (va_config context) (width cip) (height cip) VA_PROGRESSIVE ids]) =
              (VA_STATUS_SUCCESS, fst (gst_vaapi_context_get_id (Some context) tr'))) \<or>
         (fst (gst_vaapi_context_new p cip tr) = None \<and>
          (snd (gst_vaapi_context_new p cip tr) = tr @ [Gst_vaapi_object_new] \<or>
           (\<exists>pre. snd (gst_vaapi_context_new p cip tr) = pre @ [Gst_vaapi_context_overlay_finalize])))"
proof (cases "gst_vaapi_object_new_ret p (tr @ [Gst_vaapi_object_new])")
  case False
  with assms have "gst_vaapi_context_new p cip tr = (None, tr @ [Gst_vaapi_object_new])"
    by (simp add: gst_vaapi_context_new_def gst_vaapi_object_new_def)
  then show ?thesis by simp
next
  case True
  let ?c0 = "\<lparr>object_id = VA_INVALID_ID, info = cip, va_profile = 0, va_entrypoint = 0,
              va_config = VA_INVALID_ID, surfaces = None, surfaces_pool = None\<rparr>"
  let ?tr0 = "tr @ [Gst_vaapi_object_new, Gst_vaapi_context_overlay_init]"
  let ?cr = "context_create p ?c0 ?tr0"
  from True assms have new: "gst_vaapi_context_new p cip tr =
      (if \<not> fst ?cr then (None, gst_vaapi_object_unref_context p (fst (snd ?cr)) (snd (snd ?cr)))
       else (Some (fst (snd ?cr)), snd (snd ?cr)))"
    by (simp add: gst_vaapi_context_new_def gst_vaapi_object_new_def gst_vaapi_context_init_def
          case_prod_beta)
  show ?thesis
  proof (cases "fst ?cr")
    case False
    with new show ?thesis
      by (simp add: gst_vaapi_object_unref_context_def finalize_ends)
  next
    case ok: True
    from context_create_success [OF ok] obtain c' pre ids as where
      c': "fst (snd ?cr) = c'"
      and tr0: "snd (snd ?cr) =
           attribs_query c' pre @
             [GST_VAAPI_DISPLAY_UNLOCK,
              GST_VAAPI_DISPLAY_LOCK, VaCreateConfig (va_profile c') (va_entrypoint c') as,
              GST_VAAPI_DISPLAY_UNLOCK,
              GST_VAAPI_DISPLAY_LOCK,
              VaCreateContext (va_config c') (width (info c')) (height (info c')) VA_PROGRESSIVE ids,
              GST_VAAPI_DISPLAY_UNLOCK,
              GST_DEBUG ''context 0x%08x'' (object_id c'),
              G_array_free]"
      and ret0: "vaCreateContext_ret p
           (attribs_query c' pre @
              [GST_VAAPI_DISPLAY_UNLOCK,
               GST_VAAPI_DISPLAY_LOCK, VaCreateConfig (va_profile c') (va_entrypoint c') as,
               GST_VAAPI_DISPLAY_UNLOCK,
               GST_VAAPI_DISPLAY_LOCK,
               VaCreateContext (va_config c') (width (info c')) (height (info c')) VA_PROGRESSIVE ids]) =
           (VA_STATUS_SUCCESS, object_id c')"
      by (elim exE conjE) (rule that; assumption)
    have c'_def: "c' = fst (snd ?cr)"
      using c' by simp
    have info: "info c' = cip"
      unfolding c'_def by (simp add: context_create_kept_info)
    note tr = tr0 [unfolded info]
    note ret = ret0 [unfolded info]
    have s_ok: "fst (context_create_surfaces p ?c0 ?tr0)"
      using ok by (rule context_create_surfaces_ok) simp
    from context_create_surfaces_fresh [OF _ _ s_ok] obtain new_surfaces where
      pool: "surfaces_pool (fst (snd (context_create_surfaces p ?c0 ?tr0))) =
               Some \<lparr>capacity = ref_frames cip + SCRATCH_SURFACES_COUNT, free_objects = new_surfaces\<rparr>"
      and len: "length new_surfaces = unat (ref_frames cip + SCRATCH_SURFACES_COUNT)"
      by auto
    have "gst_vaapi_video_pool_get_size (surfaces_pool c') = ref_frames cip + 4"
      unfolding c'_def
      by (simp add: context_create_pool pool gst_vaapi_video_pool_get_size_def len
            SCRATCH_SURFACES_COUNT_def)
    then have count: "unat (gst_vaapi_video_pool_get_size (surfaces_pool c')) =
                        (unat (ref_frames cip) + 4) mod 2 ^ 32"
      by (simp add: unat_word_ariths)
    define h where "h = attribs_query c' pre @
              [GST_VAAPI_DISPLAY_UNLOCK,
               GST_VAAPI_DISPLAY_LOCK, VaCreateConfig (va_profile c') (va_entrypoint c') as,
               GST_VAAPI_DISPLAY_UNLOCK,
               GST_VAAPI_DISPLAY_LOCK]"
    have new': "gst_vaapi_context_new p cip tr = (Some c', snd (snd ?cr))"
      using new ok by (simp add: c'_def)
    have 1: "fst (gst_vaapi_context_new p cip tr) = Some c'"
      by (simp add: new')
    have 2: "unat (fst (gst_vaapi_context_get_surface_count (Some c') tr')) =
              (unat (ref_frames cip) + 4) mod 2 ^ 32"
      using count by (simp add: gst_vaapi_context_get_surface_count_def)
    have id: "fst (gst_vaapi_context_get_id (Some c') tr') = object_id c'"
      by (simp add: gst_vaapi_context_get_id_def)
    have 3: "snd (gst_vaapi_context_new p cip tr) =
              h @ [VaCreateContext (va_config c') (width cip) (height cip) VA_PROGRESSIVE ids,
                   GST_VAAPI_DISPLAY_UNLOCK,
                   GST_DEBUG ''context 0x%08x'' (fst (gst_vaapi_context_get_id (Some c') tr')),
                   G_array_free]"
      unfolding id new' h_def using tr by simp
    have 4: "vaCreateContext_ret p
              (h @ [VaCreateContext (va_config c') (width cip) (height cip) VA_PROGRESSIVE ids]) =
              (VA_STATUS_SUCCESS, fst (gst_vaapi_context_get_id (Some c') tr'))"
      unfolding id h_def using ret by simp
    from 1 2 3 4 show ?thesis by blast
  qed
qed

theorem context_new_all_or_nothing_witness:
  "profile example_info \<noteq> 0 \<and> entrypoint example_info \<noteq> 0 \<and>
   0 < width example_info \<and> 0 < height example_info \<and>
   fst (gst_vaapi_context_new example_platform example_info []) = Some example_session \<and>
   unat (fst (gst_vaapi_context_get_surface_count (Some example_session) [])) = 4 \<and>
   fst (gst_vaapi_context_get_id (Some example_session) []) = 0x2000000 \<and>
   (\<exists>h ids.
      snd (gst_vaapi_context_new example_platform example_info []) =
        h @ [VaCreateContext 0x1000001 16 16 1 ids, GST_VAAPI_DISPLAY_UNLOCK,
             GST_DEBUG ''context 0x%08x'' 0x2000000, G_array_free] \<and>
      vaCreateContext_ret example_platform (h @ [VaCreateContext 0x1000001 16 16 1 ids]) =
        (VA_STATUS_SUCCESS, 0x2000000))"
proof -
  have h: "profile example_info \<noteq> 0" "entrypoint example_info \<noteq> 0"
          "0 < width example_info" "0 < height example_info"
    by (simp_all add: example_info_def)
  have i: "fst (gst_vaapi_context_get_id (Some example_session) []) = 0x2000000"
    by (simp add: gst_vaapi_context_get_id_def example_session_def)
  from context_new_all_or_nothing [OF h, of example_platform "[]" "[]"] example_session_created
  obtain ha ids where
    c: "unat (fst (gst_vaapi_context_get_surface_count (Some example_session) [])) =
          (unat (ref_frames example_info) + 4) mod 2 ^ 32"
    and t: "snd (gst_vaapi_context_new example_platform example_info []) =
              ha @ [VaCreateContext (va_config example_session) (width example_info) (height example_info)
                     VA_PROGRESSIVE ids,
                   GST_VAAPI_DISPLAY_UNLOCK,
                   GST_DEBUG ''context 0x%08x'' (fst (gst_vaapi_context_get_id (Some example_session) [])),
                   G_array_free]"
    and r: "vaCreateContext_ret example_platform
              (ha @ [VaCreateContext (va_config example_session) (width example_info) (height example_info)
                     VA_PROGRESSIVE ids]) =
              (VA_STATUS_SUCCESS, fst (gst_vaapi_context_get_id (Some example_session) []))"
    by auto
  have v: "va_config example_session = 0x1000001" "width example_info = 16" "height example_info = 16"
          "VA_PROGRESSIVE = 1"
    by (simp_all add: example_session_def example_info_def VA_PROGRESSIVE_def)
  from c have 1: "unat (fst (gst_vaapi_context_get_surface_count (Some example_session) [])) = 4"
    by (simp add: example_info_def)
  from t r have 2: "\<exists>h ids.
      snd (gst_vaapi_context_new example_platform example_info []) =
        h @ [VaCreateContext 0x1000001 16 16 1 ids, GST_VAAPI_DISPLAY_UNLOCK,
             GST_DEBUG ''context 0x%08x'' 0x2000000, G_array_free] \<and>
      vaCreateContext_ret example_platform (h @ [VaCreateContext 0x1000001 16 16 1 ids]) =
        (VA_STATUS_SUCCESS, 0x2000000)"
    unfolding v i by blast
  from h example_session_created 1 i 2 show ?thesis by blast
qed

end
